theory Spec2Isabelle
  imports Complex_Main "HOL-Library.Sublist"
begin

section \<open>JavaScript values\<close>

text \<open>
  The program is TypeScript and runs as JavaScript. Three things of the language show in
  the functions modelled here, and are modelled with them: a property read on a plain
  object also finds the members that the object inherits from \<^verbatim>\<open>Object.prototype\<close>;
  arithmetic on \<^verbatim>\<open>undefined\<close> gives \<^verbatim>\<open>NaN\<close>; and a method call on \<^verbatim>\<open>undefined\<close> throws a
  \<^verbatim>\<open>TypeError\<close>.
\<close>

datatype error = TypeError

text \<open>
  The own property names of \<^verbatim>\<open>Object.prototype\<close> (ECMAScript, with the legacy accessors of
  its Annex B). All are functions, except \<^verbatim>\<open>__proto__\<close>, which is an accessor: reading it
  gives the prototype of the object, and assigning an object to it replaces the prototype.
\<close>

definition object_prototype_names :: "string list" where
  "object_prototype_names =
     [''constructor'', ''__defineGetter__'', ''__defineSetter__'', ''hasOwnProperty'',
      ''__lookupGetter__'', ''__lookupSetter__'', ''isPrototypeOf'', ''propertyIsEnumerable'',
      ''toString'', ''valueOf'', ''__proto__'', ''toLocaleString'']"

text \<open>
  Strings. A string that the program only stores, compares or shows is a \<open>string\<close>. A
  string whose characters the program classifies (the text the student sends, the
  expression of a function) is a list of UTF-16 code units, and so is every string that
  shares a field with one; \<open>ustr\<close> gives the code units of an ASCII literal.
\<close>

type_synonym jsstring = "nat list"

definition ustr :: "string \<Rightarrow> jsstring" where
  "ustr s = map of_char s"

text \<open>
  The white space of \<^verbatim>\<open>String.prototype.trim\<close> and of the class \<^verbatim>\<open>\s\<close> of a regular
  expression: tab, line feed, vertical tab, form feed, carriage return, space, no-break
  space, U+1680, U+2000 to U+200A, the line and paragraph separators U+2028 and U+2029,
  U+202F, U+205F, U+3000 and the byte order mark U+FEFF.
\<close>

definition is_white_space :: "nat \<Rightarrow> bool" where
  "is_white_space c =
     (c \<in> set [0x09, 0x0A, 0x0B, 0x0C, 0x0D, 0x20, 0xA0, 0x1680, 0x2028, 0x2029, 0x202F,
               0x205F, 0x3000, 0xFEFF]
      \<or> (0x2000 \<le> c \<and> c \<le> 0x200A))"

text \<open>\<^verbatim>\<open>!text.trim()\<close>: the text is empty once its white space is trimmed.\<close>

definition trim_is_empty :: "jsstring \<Rightarrow> bool" where
  "trim_is_empty s = list_all is_white_space s"

section \<open>Knowledge graph store\<close>

text \<open>
  The TypeScript type \<^verbatim>\<open>ErrorType\<close> is a union of seven string literals. At run time its
  values are plain strings, every test on them in the source is a string comparison
  (\<^verbatim>\<open>errorType !== 'None'\<close>), and a record that arrives over the wire is cast to the
  type without a check. The embedding therefore keeps the run-time representation, a
  string, and lists the seven members of the union in \<open>ERROR_TYPES\<close>, as the source does.
\<close>

type_synonym ErrorType = string

definition ERROR_TYPES :: "ErrorType list" where
  "ERROR_TYPES =
     [''Conceptual Gap'', ''Arithmetic Error'', ''Sign Error'', ''Wrong Theorem'',
      ''Notation Confusion'', ''Correct Idea, Wrong Execution'', ''None'']"

text \<open>
  A topic state, as the update function can build it. The confidence score and its delta
  are integers (the range 0 to 100 of the data model; the rounding of doubles is outside
  the model), the counters are naturals. When the update reads its topic from an
  inherited member, the state it stores has the score \<^verbatim>\<open>NaN\<close>, the attempts \<^verbatim>\<open>NaN\<close> and
  no array of last errors: \<open>None\<close> is \<^verbatim>\<open>NaN\<close> in the first two fields and \<^verbatim>\<open>undefined\<close> in
  the third.
\<close>

record TopicState =
  mastered :: bool
  confidenceScore :: "int option"
  attempts :: "nat option"
  lastErrors :: "ErrorType list option"

text \<open>\<^verbatim>\<open>ErrorRecord { type, topic, timestamp }\<close>; the fields carry the prefix \<open>err_\<close> where
  the plain name is a field of another record.\<close>

record ErrorRecord =
  err_type :: ErrorType
  err_topic :: string
  timestamp :: nat

record SessionStats =
  totalAttempts :: nat
  consecutiveFailures :: nat
  microDrillsCompleted :: nat
  currentTopic :: string
  attemptOnCurrentProblem :: nat

text \<open>
  \<^verbatim>\<open>topics: Record<string, TopicState>\<close> is a plain object: its own properties, a map from
  topic names to topic states, and its prototype. The prototype is \<^verbatim>\<open>Object.prototype\<close>
  (\<open>None\<close>) unless an assignment to \<^verbatim>\<open>__proto__\<close> has replaced it by a topic state
  (\<open>Some\<close>), whose own prototype is \<^verbatim>\<open>Object.prototype\<close>.
\<close>

record TopicsObject =
  own :: "string \<rightharpoonup> TopicState"
  proto :: "TopicState option"

text \<open>What a property read \<^verbatim>\<open>topics[k]\<close> can give: nothing, a topic state, a member of
  \<^verbatim>\<open>Object.prototype\<close>, that object itself, or the value of a field of the topic state
  that is the prototype.\<close>

datatype Property =
    Undefined
  | Entry TopicState
  | PrototypeMember string
  | ObjectPrototype
  | BooleanValue bool
  | NumberValue "int option"
  | ArrayValue "ErrorType list"

text \<open>\<^verbatim>\<open>obj[k]\<close>: an own property first, then the prototype chain.\<close>

definition get_property :: "TopicsObject \<Rightarrow> string \<Rightarrow> Property" where
  "get_property obj k =
     (case own obj k of
        Some ts \<Rightarrow> Entry ts
      | None \<Rightarrow>
          (case proto obj of
             None \<Rightarrow>
               if k = ''__proto__'' then ObjectPrototype
               else if k \<in> set object_prototype_names then PrototypeMember k
               else Undefined
           | Some p \<Rightarrow>
               if k = ''mastered'' then BooleanValue (mastered p)
               else if k = ''confidenceScore'' then NumberValue (confidenceScore p)
               else if k = ''attempts'' then NumberValue (map_option int (attempts p))
               else if k = ''lastErrors''
                 then (case lastErrors p of None \<Rightarrow> Undefined | Some xs \<Rightarrow> ArrayValue xs)
               else if k = ''__proto__'' then Entry p
               else if k \<in> set object_prototype_names then PrototypeMember k
               else Undefined))"

text \<open>
  \<^verbatim>\<open>obj[k] = v\<close> for a topic state \<open>v\<close>: an own property is overwritten; otherwise the
  name \<^verbatim>\<open>__proto__\<close> reaches the inherited setter, which makes \<open>v\<close> the prototype and adds
  no property; any other name becomes a new own property.
\<close>

definition set_property :: "TopicsObject \<Rightarrow> string \<Rightarrow> TopicState \<Rightarrow> TopicsObject" where
  "set_property obj k v =
     (if own obj k \<noteq> None then obj \<lparr> own := (own obj)(k \<mapsto> v) \<rparr>
      else if k = ''__proto__'' then obj \<lparr> proto := Some v \<rparr>
      else obj \<lparr> own := (own obj)(k \<mapsto> v) \<rparr>)"

text \<open>\<^verbatim>\<open>{ ...obj }\<close>: a new object with the own properties of \<open>obj\<close> and the prototype
  \<^verbatim>\<open>Object.prototype\<close>.\<close>

definition spread :: "TopicsObject \<Rightarrow> TopicsObject" where
  "spread obj = \<lparr> own = own obj, proto = None \<rparr>"

record KnowledgeGraph =
  topics :: TopicsObject
  weakNodes :: "string list"
  errorHistory :: "ErrorRecord list"
  sessionStats :: SessionStats

text \<open>\<^verbatim>\<open>KnowledgeUpdate { topic, confidence_delta, mastered?, weak_nodes? }\<close>: the two
  optional fields are options; \<open>upd_mastered\<close> is the source's \<^verbatim>\<open>mastered?\<close>.\<close>

record KnowledgeUpdate =
  topic :: string
  confidence_delta :: int
  upd_mastered :: "bool option"
  weak_nodes :: "string list option"

definition createInitialKnowledgeGraph :: KnowledgeGraph where
  "createInitialKnowledgeGraph =
     \<lparr> topics = \<lparr> own = Map.empty, proto = None \<rparr>, weakNodes = [], errorHistory = [],
       sessionStats = \<lparr> totalAttempts = 0, consecutiveFailures = 0, microDrillsCompleted = 0,
                        currentTopic = [], attemptOnCurrentProblem = 0 \<rparr> \<rparr>"

text \<open>\<^verbatim>\<open>xs.slice(-n)\<close> for a positive \<open>n\<close>: the last \<open>n\<close> elements, all of them when there
  are fewer.\<close>

definition slice_last :: "nat \<Rightarrow> 'a list \<Rightarrow> 'a list" where
  "slice_last n xs = drop (length xs - n) xs"

text \<open>\<^verbatim>\<open>Array.from(new Set(xs))\<close>: a set keeps the first occurrence of each element, in
  insertion order.\<close>

fun array_from_set_acc :: "'a list \<Rightarrow> 'a list \<Rightarrow> 'a list" where
  "array_from_set_acc seen [] = seen"
| "array_from_set_acc seen (x # xs) =
     (if x \<in> set seen then array_from_set_acc seen xs else array_from_set_acc (seen @ [x]) xs)"

definition array_from_set :: "'a list \<Rightarrow> 'a list" where
  "array_from_set xs = array_from_set_acc [] xs"

definition default_topic :: TopicState where
  "default_topic =
     \<lparr> mastered = False, confidenceScore = Some 50, attempts = Some 0, lastErrors = Some [] \<rparr>"

text \<open>\<^verbatim>\<open>v ?? d\<close>: the default replaces \<^verbatim>\<open>undefined\<close> only; an inherited member is kept.\<close>

definition nullish_or :: "Property \<Rightarrow> TopicState \<Rightarrow> Property" where
  "nullish_or v d = (case v of Undefined \<Rightarrow> Entry d | _ \<Rightarrow> v)"

text \<open>
  \<^verbatim>\<open>const existing = next.topics[topic] ?? { ...default }\<close>, where \<^verbatim>\<open>next.topics\<close> is the
  clone \<^verbatim>\<open>{ ...kg.topics }\<close>.
\<close>

definition lookup_existing :: "KnowledgeGraph \<Rightarrow> string \<Rightarrow> Property" where
  "lookup_existing kg k = nullish_or (get_property (spread (topics kg)) k) default_topic"

text \<open>
  The fields that the update reads from \<open>existing\<close>. A value that is not a topic state
  has none of them: the read gives \<^verbatim>\<open>undefined\<close>, which is \<^verbatim>\<open>NaN\<close> as an operand of
  \<^verbatim>\<open>+\<close>. (\<open>existing\<close> is never \<^verbatim>\<open>undefined\<close> itself.)
\<close>

fun read_confidenceScore :: "Property \<Rightarrow> int option" where
  "read_confidenceScore (Entry ts) = confidenceScore ts"
| "read_confidenceScore v = None"

fun read_attempts :: "Property \<Rightarrow> nat option" where
  "read_attempts (Entry ts) = attempts ts"
| "read_attempts v = None"

fun read_lastErrors :: "Property \<Rightarrow> ErrorType list option" where
  "read_lastErrors (Entry ts) = lastErrors ts"
| "read_lastErrors v = None"

text \<open>\<^verbatim>\<open>Math.min(100, Math.max(0, x))\<close> and \<^verbatim>\<open>x >= 85\<close>, where \<open>x\<close> may be \<^verbatim>\<open>NaN\<close>.\<close>

definition clamp_score :: "int option \<Rightarrow> int option" where
  "clamp_score x = map_option (\<lambda>v. min 100 (max 0 v)) x"

definition at_least_85 :: "int option \<Rightarrow> bool" where
  "at_least_85 x = (case x of None \<Rightarrow> False | Some v \<Rightarrow> v \<ge> 85)"

text \<open>
  \<^verbatim>\<open>errorType !== 'None' ? [...existing.lastErrors.slice(-4), errorType]
  : existing.lastErrors\<close>: the call of \<^verbatim>\<open>slice\<close> on \<^verbatim>\<open>undefined\<close> throws.
\<close>

definition recent_errors :: "Property \<Rightarrow> ErrorType \<Rightarrow> error + ErrorType list option" where
  "recent_errors existing errorType =
     (if errorType \<noteq> ''None''
      then (case read_lastErrors existing of
              None \<Rightarrow> Inl TypeError
            | Some xs \<Rightarrow> Inr (Some (slice_last 4 xs @ [errorType])))
      else Inr (read_lastErrors existing))"

text \<open>\<^verbatim>\<open>next.topics[topic].mastered\<close> as a condition: a read on \<^verbatim>\<open>undefined\<close> throws, and a
  value without the field gives \<^verbatim>\<open>undefined\<close>, which counts as false.\<close>

fun read_mastered :: "Property \<Rightarrow> error + bool" where
  "read_mastered Undefined = Inl TypeError"
| "read_mastered (Entry ts) = Inr (mastered ts)"
| "read_mastered v = Inr False"

text \<open>
  \<^verbatim>\<open>applyKnowledgeUpdate(kg, update, errorType, isCorrect)\<close>. The source reads the clock
  (\<^verbatim>\<open>Date.now()\<close>) for the time stamp of the error record; the reading is the argument
  \<open>now\<close>. The steps follow the statements of the source in their order; the result is
  the new graph, or the error thrown on the way.
\<close>

definition applyKnowledgeUpdate ::
  "KnowledgeGraph \<Rightarrow> KnowledgeUpdate \<Rightarrow> ErrorType \<Rightarrow> bool \<Rightarrow> nat \<Rightarrow> error + KnowledgeGraph" where
  "applyKnowledgeUpdate kg update errorType isCorrect now =
     (let existing = lookup_existing kg (topic update);
          newScore = clamp_score
                       (map_option (\<lambda>v. v + confidence_delta update) (read_confidenceScore existing))
      in case recent_errors existing errorType of
           Inl err \<Rightarrow> Inl err
         | Inr recentErrors \<Rightarrow>
             (let newTopic = \<lparr> mastered = (case upd_mastered update of Some m \<Rightarrow> m
                                             | None \<Rightarrow> at_least_85 newScore \<and> isCorrect),
                              confidenceScore = newScore,
                              attempts = map_option (\<lambda>n. n + 1) (read_attempts existing),
                              lastErrors = recentErrors \<rparr>;
                  topics1 = set_property (spread (topics kg)) (topic update) newTopic;
                  weak1 = (case weak_nodes update of
                             Some ws \<Rightarrow> (if length ws > 0 then array_from_set (weakNodes kg @ ws)
                                         else weakNodes kg)
                           | None \<Rightarrow> weakNodes kg)
              in case read_mastered (get_property topics1 (topic update)) of
                   Inl err \<Rightarrow> Inl err
                 | Inr isMastered \<Rightarrow>
                     (let weak2 = (if isMastered then filter (\<lambda>n. n \<noteq> topic update) weak1
                                   else weak1);
                          history1 =
                            (if errorType \<noteq> ''None''
                             then slice_last 49 (errorHistory kg)
                                  @ [\<lparr> err_type = errorType, err_topic = topic update,
                                       timestamp = now \<rparr>]
                             else errorHistory kg);
                          stats = sessionStats kg
                      in Inr \<lparr> topics = topics1,
                               weakNodes = weak2,
                               errorHistory = history1,
                               sessionStats = stats
                                 \<lparr> totalAttempts := totalAttempts stats + 1,
                                   consecutiveFailures :=
                                     (if isCorrect then 0 else consecutiveFailures stats + 1),
                                   currentTopic := topic update,
                                   attemptOnCurrentProblem :=
                                     (if isCorrect then 0
                                      else attemptOnCurrentProblem stats + 1) \<rparr> \<rparr>)))"

text \<open>The topic state that the update stores for its topic, when it returns: the object
  literal of the assignment \<^verbatim>\<open>next.topics[topic] = { ... }\<close>, as a function of the
  arguments.\<close>

definition new_entry :: "KnowledgeGraph \<Rightarrow> KnowledgeUpdate \<Rightarrow> ErrorType \<Rightarrow> bool \<Rightarrow> TopicState" where
  "new_entry kg u e c =
     (let existing = lookup_existing kg (topic u);
          newScore = clamp_score (map_option (\<lambda>v. v + confidence_delta u) (read_confidenceScore existing))
      in \<lparr> mastered = (case upd_mastered u of Some m \<Rightarrow> m | None \<Rightarrow> at_least_85 newScore \<and> c),
           confidenceScore = newScore,
           attempts = map_option (\<lambda>n. n + 1) (read_attempts existing),
           lastErrors = (if e \<noteq> ''None''
                         then map_option (\<lambda>xs. slice_last 4 xs @ [e]) (read_lastErrors existing)
                         else read_lastErrors existing) \<rparr>)"

definition recordMicroDrillCompleted :: "KnowledgeGraph \<Rightarrow> KnowledgeGraph" where
  "recordMicroDrillCompleted kg =
     kg \<lparr> sessionStats := (sessionStats kg)
            \<lparr> microDrillsCompleted := microDrillsCompleted (sessionStats kg) + 1 \<rparr> \<rparr>"

definition resetAttemptCounter :: "KnowledgeGraph \<Rightarrow> KnowledgeGraph" where
  "resetAttemptCounter kg =
     kg \<lparr> sessionStats := (sessionStats kg)
            \<lparr> attemptOnCurrentProblem := 0, consecutiveFailures := 0 \<rparr> \<rparr>"

text \<open>
  The graphs the store builds: the empty graph, and what its three operations make of a
  graph it has built, when they return one.
\<close>

inductive store_reachable :: "KnowledgeGraph \<Rightarrow> bool" where
  initial: "store_reachable createInitialKnowledgeGraph"
| update: "store_reachable kg \<Longrightarrow> applyKnowledgeUpdate kg u e c now = Inr kg'
             \<Longrightarrow> store_reachable kg'"
| drill: "store_reachable kg \<Longrightarrow> store_reachable (recordMicroDrillCompleted kg)"
| reset: "store_reachable kg \<Longrightarrow> store_reachable (resetAttemptCounter kg)"

text \<open>The two bounds on the error history: at most 50 entries, none of type
  \<^verbatim>\<open>'None'\<close>.\<close>

definition history_ok :: "KnowledgeGraph \<Rightarrow> bool" where
  "history_ok kg \<longleftrightarrow>
     length (errorHistory kg) \<le> 50 \<and> (\<forall>r \<in> set (errorHistory kg). err_type r \<noteq> ''None'')"

text \<open>
  \<^verbatim>\<open>getErrorFrequency\<close> of the knowledge-graph module (window of 30). The frequency
  object is a plain object too; its own properties are an association list in insertion
  order (the order does not matter to the functions modelled here). A value is a count,
  or the string that \<^verbatim>\<open>+ 1\<close> makes of a member of \<^verbatim>\<open>Object.prototype\<close>, which no
  comparison with a number accepts. \<^verbatim>\<open>freq[k] = (freq[k] ?? 0) + 1\<close> is \<open>bump\<close>: for
  \<^verbatim>\<open>__proto__\<close> the inherited setter ignores the string and nothing changes.
\<close>

datatype FreqValue = Count nat | Text

definition bump :: "(string \<times> FreqValue) list \<Rightarrow> string \<Rightarrow> (string \<times> FreqValue) list" where
  "bump freq k =
     (case map_of freq k of
        Some (Count c) \<Rightarrow> map (\<lambda>(k', v'). if k' = k then (k', Count (c + 1)) else (k', v')) freq
      | Some Text \<Rightarrow> freq
      | None \<Rightarrow>
          if k = ''__proto__'' then freq
          else if k \<in> set object_prototype_names then freq @ [(k, Text)]
          else freq @ [(k, Count 1)])"

definition getErrorFrequency :: "KnowledgeGraph \<Rightarrow> (ErrorType \<times> FreqValue) list" where
  "getErrorFrequency kg =
     fold (\<lambda>r freq. bump freq (err_type r)) (slice_last 30 (errorHistory kg)) []"

text \<open>\<^verbatim>\<open>Object.values(freq).some((count) => count >= 3)\<close>\<close>

fun at_least_3 :: "FreqValue \<Rightarrow> bool" where
  "at_least_3 (Count c) = (c \<ge> 3)"
| "at_least_3 Text = False"

definition shouldTriggerMicroDrill :: "KnowledgeGraph \<Rightarrow> bool" where
  "shouldTriggerMicroDrill kg = list_ex at_least_3 (map snd (getErrorFrequency kg))"

text \<open>
  The words of the specification for the drill trigger: within the most recent 30 history
  entries, some kind other than \<^verbatim>\<open>None\<close> occurs at least three times.
\<close>

definition spec_drill_trigger :: "KnowledgeGraph \<Rightarrow> bool" where
  "spec_drill_trigger kg =
     (let window = map err_type (slice_last 30 (errorHistory kg))
      in list_ex (\<lambda>k. k \<noteq> ''None'' \<and> count_list window k \<ge> 3) window)"

text \<open>
  A plain history: no record has the type \<^verbatim>\<open>'None'\<close>, and none has a type that is a
  property name of \<^verbatim>\<open>Object.prototype\<close>. The six error kinds of the enumeration are such
  types.
\<close>

definition history_plain :: "KnowledgeGraph \<Rightarrow> bool" where
  "history_plain kg \<longleftrightarrow>
     (\<forall>r \<in> set (errorHistory kg).
        err_type r \<noteq> ''None'' \<and> err_type r \<notin> set object_prototype_names)"

text \<open>The frequency object after a window in which the key \<open>k\<close> occurs \<open>n\<close> times: a key
  that never occurred is absent, and so is \<^verbatim>\<open>__proto__\<close>; another name of
  \<^verbatim>\<open>Object.prototype\<close> holds a string; every other key holds its number of occurrences.\<close>

definition freq_value :: "nat \<Rightarrow> string \<Rightarrow> FreqValue option" where
  "freq_value n k =
     (if n = 0 \<or> k = ''__proto__'' then None
      else if k \<in> set object_prototype_names then Some Text
      else Some (Count n))"

section \<open>Session state machine\<close>

text \<open>
  The types of the session. The unions \<^verbatim>\<open>VisualizationType\<close>, \<^verbatim>\<open>StepStatus\<close> and the
  role of a message are passed on by the modelled functions and never inspected: they are
  enumerations. A field is renamed where its name is a keyword or a constant of the logic
  or belongs to an earlier record: \<open>wb_text\<close> for \<^verbatim>\<open>text\<close>, \<open>msg_id\<close> for \<^verbatim>\<open>id\<close>,
  \<open>msg_timestamp\<close> for \<^verbatim>\<open>timestamp\<close>, \<open>step_expression\<close> and \<open>fc_expression\<close> for
  \<^verbatim>\<open>expression\<close>, \<open>cm_role\<close> and \<open>cm_content\<close> for \<^verbatim>\<open>role\<close> and \<^verbatim>\<open>content\<close>.
\<close>

datatype VisualizationType = Limit | Derivative | Integral | NoVisualization

datatype StepStatus = Neutral | Student | Correct | Error

record Step =
  step_expression :: string
  status :: StepStatus
  annotation :: "string option"

record FunctionConfig =
  fc_expression :: jsstring
  limit_approach :: "real option"
  limit_value :: "real option"
  derivative_point :: "real option"
  integral_a :: "real option"
  integral_b :: "real option"
  x_min :: "real option"
  x_max :: "real option"
  y_min :: "real option"
  y_max :: "real option"

record WhiteboardInstruction =
  wb_text :: string
  visualization_type :: VisualizationType
  math_expression :: "string option"
  function_config :: "FunctionConfig option"
  steps :: "Step list option"
  highlight_step :: "nat option"

record SocraticResponse =
  tutor_response :: jsstring
  error_type :: ErrorType
  micro_drill :: bool
  whiteboard_instruction :: WhiteboardInstruction
  knowledge_update :: KnowledgeUpdate

datatype Role = User | Assistant

record ConversationMessage =
  cm_role :: Role
  cm_content :: jsstring

record Message =
  msg_id :: string
  role :: Role
  content :: jsstring
  errorType :: "ErrorType option"
  msg_timestamp :: nat
  isMicroDrill :: "bool option"

record SessionState =
  messages :: "Message list"
  conversationHistory :: "ConversationMessage list"
  knowledgeGraph :: KnowledgeGraph
  whiteboardInstruction :: WhiteboardInstruction
  isLoading :: bool
  error :: "string option"
  microDrillActive :: bool
  microDrillTopic :: "string option"
  streamingText :: jsstring
  isStreaming :: bool

definition INITIAL_WHITEBOARD :: WhiteboardInstruction where
  "INITIAL_WHITEBOARD =
     \<lparr> wb_text = ''Ask me any math question to get started.'',
       visualization_type = NoVisualization, math_expression = None, function_config = None,
       steps = None, highlight_step = None \<rparr>"

definition createInitialState :: SessionState where
  "createInitialState =
     \<lparr> messages = [], conversationHistory = [],
       knowledgeGraph = createInitialKnowledgeGraph,
       whiteboardInstruction = INITIAL_WHITEBOARD,
       isLoading = False, error = None,
       microDrillActive = False, microDrillTopic = None,
       streamingText = [], isStreaming = False \<rparr>"

datatype Action =
    INIT_KG KnowledgeGraph
  | SEND_MESSAGE Message "ConversationMessage list"
  | SET_LOADING bool
  | SET_STREAMING bool
  | STREAM_CHUNK jsstring
  | ENGINE_RESPONSE SocraticResponse
  | SET_ERROR "string option"
  | DISMISS_MICRO_DRILL
  | RESET_SESSION

text \<open>
  What the reducer reads from its environment while it handles \<^verbatim>\<open>ENGINE_RESPONSE\<close>: the
  clock inside \<^verbatim>\<open>applyKnowledgeUpdate\<close>, then a fresh identifier and the clock again for
  the assistant message.
\<close>

record Env =
  update_clock :: nat
  fresh_id :: string
  message_clock :: nat

text \<open>
  The reducer gives the next state, or the error that \<^verbatim>\<open>applyKnowledgeUpdate\<close> throws in
  the case \<^verbatim>\<open>ENGINE_RESPONSE\<close>; no other case can throw.
\<close>

fun reducer :: "Env \<Rightarrow> SessionState \<Rightarrow> Action \<Rightarrow> error + SessionState" where
  "reducer env state (INIT_KG payload) = Inr (state \<lparr> knowledgeGraph := payload \<rparr>)"
| "reducer env state (SEND_MESSAGE userMessage history) =
     Inr (state \<lparr> messages := messages state @ [userMessage],
                  conversationHistory := history,
                  error := None \<rparr>)"
| "reducer env state (SET_LOADING payload) = Inr (state \<lparr> isLoading := payload \<rparr>)"
| "reducer env state (SET_STREAMING payload) =
     Inr (state \<lparr> isStreaming := payload,
                  streamingText := (if payload then [] else streamingText state) \<rparr>)"
| "reducer env state (STREAM_CHUNK payload) =
     Inr (state \<lparr> streamingText := streamingText state @ payload \<rparr>)"
| "reducer env state (ENGINE_RESPONSE payload) =
     (let isCorrect = (error_type payload = ''None'')
      in case applyKnowledgeUpdate (knowledgeGraph state) (knowledge_update payload)
                (error_type payload) isCorrect (update_clock env) of
           Inl err \<Rightarrow> Inl err
         | Inr updatedKg \<Rightarrow>
             (let assistantMessage =
                    \<lparr> msg_id = fresh_id env, role = Assistant, content = tutor_response payload,
                      errorType = Some (error_type payload), msg_timestamp = message_clock env,
                      isMicroDrill = Some (micro_drill payload) \<rparr>;
                  newHistory = conversationHistory state
                                 @ [\<lparr> cm_role = Assistant, cm_content = tutor_response payload \<rparr>];
                  finalKg = (if micro_drill payload then recordMicroDrillCompleted updatedKg
                             else updatedKg)
              in Inr (state \<lparr> messages := messages state @ [assistantMessage],
                              conversationHistory := newHistory,
                              knowledgeGraph := finalKg,
                              whiteboardInstruction := whiteboard_instruction payload,
                              isLoading := False,
                              isStreaming := False,
                              streamingText := [],
                              microDrillActive := micro_drill payload,
                              microDrillTopic := (if micro_drill payload
                                                  then Some (topic (knowledge_update payload))
                                                  else microDrillTopic state) \<rparr>)))"
| "reducer env state (SET_ERROR payload) =
     Inr (state \<lparr> error := payload, isLoading := False, isStreaming := False \<rparr>)"
| "reducer env state DISMISS_MICRO_DRILL =
     Inr (state \<lparr> microDrillActive := False, microDrillTopic := None,
                  knowledgeGraph := resetAttemptCounter (knowledgeGraph state) \<rparr>)"
| "reducer env state RESET_SESSION =
     Inr (createInitialState \<lparr> knowledgeGraph := createInitialKnowledgeGraph \<rparr>)"

text \<open>A dispatch after an earlier one: the reducer runs on the state the earlier action
  has left, if it has left one.\<close>

definition dispatch :: "Env \<Rightarrow> error + SessionState \<Rightarrow> Action \<Rightarrow> error + SessionState" where
  "dispatch env r a = (case r of Inl err \<Rightarrow> Inl err | Inr state \<Rightarrow> reducer env state a)"

text \<open>
  The error panel of the chat, \<^verbatim>\<open>{error && ( ... {error} ... )}\<close>: it is rendered when
  \<^verbatim>\<open>error\<close> is a string that is not empty; \<^verbatim>\<open>null\<close> and the empty string render nothing.
\<close>

definition error_shown :: "SessionState \<Rightarrow> bool" where
  "error_shown state = (case error state of None \<Rightarrow> False | Some m \<Rightarrow> m \<noteq> [])"

subsection \<open>One tutoring turn\<close>

fun digit_char :: "nat \<Rightarrow> char" where
  "digit_char n = char_of (48 + n)"

text \<open>The decimal numeral of a status code, for the template \<^verbatim>\<open>`HTTP ${res.status}`\<close>.\<close>

function show_nat :: "nat \<Rightarrow> string" where
  "show_nat n = (if n < 10 then [digit_char n] else show_nat (n div 10) @ [digit_char (n mod 10)])"
  by pat_completeness auto
termination
  by (relation "measure (\<lambda>n. n)") auto

text \<open>
  What the \<^verbatim>\<open>try\<close> block of \<^verbatim>\<open>sendMessage\<close> can meet. \<^verbatim>\<open>fetch\<close> rejects with a thrown
  value: an \<^verbatim>\<open>Error\<close> with its message, or something else. Or it resolves to a response
  whose \<^verbatim>\<open>ok\<close> flag is false, with its status and a body: a body that is not JSON; the
  JSON value \<^verbatim>\<open>null\<close>, on which the read of \<^verbatim>\<open>err.error\<close> throws a \<^verbatim>\<open>TypeError\<close> (with the
  message the engine gives it); a body with a member \<^verbatim>\<open>error\<close> that is neither \<^verbatim>\<open>null\<close>
  nor absent (\<open>WithErrorMember m\<close>, where \<open>m\<close> is the member as \<^verbatim>\<open>new Error\<close> converts it to
  a string: the member itself when it is a string); or any other body. Or it resolves to
  a response whose \<^verbatim>\<open>ok\<close> flag is true, with a body that is not JSON (\<^verbatim>\<open>res.json()\<close>
  rejects with a \<^verbatim>\<open>SyntaxError\<close> and its message) or that parses. A body that parses is
  cast to \<^verbatim>\<open>SocraticResponse\<close> without any check: in the model its fields are present,
  and its \<open>error_type\<close> is any string.
\<close>

datatype Thrown = ErrorObject string | NotAnErrorObject

datatype NotOkBody = NotJson | NullBody string | WithErrorMember string | WithoutErrorMember

datatype OkBody = OkNotJson string | OkRecord SocraticResponse

datatype FetchOutcome =
    FetchRejected Thrown
  | NotOk nat NotOkBody
  | Ok OkBody

text \<open>The body of the \<^verbatim>\<open>try\<close> block up to the dispatch: the record to dispatch, or the
  value thrown.\<close>

fun try_fetch :: "FetchOutcome \<Rightarrow> Thrown + SocraticResponse" where
  "try_fetch (FetchRejected thrown) = Inl thrown"
| "try_fetch (NotOk st NotJson) = Inl (ErrorObject ''Request failed'')"
| "try_fetch (NotOk st (NullBody m)) = Inl (ErrorObject m)"
| "try_fetch (NotOk st (WithErrorMember m)) = Inl (ErrorObject m)"
| "try_fetch (NotOk st WithoutErrorMember) = Inl (ErrorObject (''HTTP '' @ show_nat st))"
| "try_fetch (Ok (OkNotJson m)) = Inl (ErrorObject m)"
| "try_fetch (Ok (OkRecord engineResponse)) = Inr engineResponse"

text \<open>\<^verbatim>\<open>err instanceof Error ? err.message : 'Something went wrong'\<close>\<close>

fun catch_message :: "Thrown \<Rightarrow> string" where
  "catch_message (ErrorObject m) = m"
| "catch_message NotAnErrorObject = ''Something went wrong''"

text \<open>
  \<^verbatim>\<open>sendMessage(text)\<close>, with the outcome of the request as an argument. \<open>user_id\<close> and
  \<open>user_clock\<close> are the identifier and the clock reading of the user message. The actions
  are dispatched to the reducer in the order of the source, one turn at a time. The
  reducer runs when the provider renders, outside the \<^verbatim>\<open>try\<close> block: an error it throws
  on \<^verbatim>\<open>ENGINE_RESPONSE\<close> is not caught, and the turn then has no next state.
\<close>

definition sendMessage ::
  "string \<Rightarrow> nat \<Rightarrow> Env \<Rightarrow> FetchOutcome \<Rightarrow> SessionState \<Rightarrow> jsstring \<Rightarrow> error + SessionState" where
  "sendMessage user_id user_clock env outcome state txt =
     (if trim_is_empty txt \<or> isLoading state then Inr state
      else
        let userMessage = \<lparr> msg_id = user_id, role = User, content = txt, errorType = None,
                             msg_timestamp = user_clock, isMicroDrill = None \<rparr>;
            updatedHistory = conversationHistory state @ [\<lparr> cm_role = User, cm_content = txt \<rparr>];
            s1 = reducer env state (SEND_MESSAGE userMessage updatedHistory);
            s2 = dispatch env s1 (SET_LOADING True);
            s3 = dispatch env s2 (SET_STREAMING True)
        in case try_fetch outcome of
             Inr engineResponse \<Rightarrow> dispatch env s3 (ENGINE_RESPONSE engineResponse)
           | Inl err \<Rightarrow> dispatch env s3 (SET_ERROR (Some (catch_message err))))"

subsection \<open>The route handler\<close>

text \<open>
  The handler of \<^verbatim>\<open>POST /api/socratic\<close>. Its first argument is the member \<^verbatim>\<open>message\<close> of
  the request body, which may be missing. The call of the language model is its second
  argument: it throws an API error (status and message), another error, or a value that
  is no error, or it answers with content blocks. The input of a tool-use block is a
  record whose white-board instruction may be missing.
\<close>

record ToolInput =
  in_tutor_response :: jsstring
  in_error_type :: ErrorType
  in_micro_drill :: bool
  in_whiteboard_instruction :: "WhiteboardInstruction option"
  in_knowledge_update :: KnowledgeUpdate

datatype ContentBlock = TextBlock jsstring | ToolUseBlock string ToolInput

datatype ModelOutcome =
    APIError nat string
  | OtherError string
  | ThrownValue
  | Content "ContentBlock list"

definition DEFAULT_WHITEBOARD :: WhiteboardInstruction where
  "DEFAULT_WHITEBOARD =
     \<lparr> wb_text = ''Waiting for student input...'',
       visualization_type = NoVisualization, math_expression = None, function_config = None,
       steps = None, highlight_step = None \<rparr>"

fun is_tool_use :: "ContentBlock \<Rightarrow> bool" where
  "is_tool_use (ToolUseBlock name inp) = True"
| "is_tool_use (TextBlock t) = False"

definition error_response :: "nat \<Rightarrow> string \<Rightarrow> FetchOutcome" where
  "error_response st m = NotOk st (WithErrorMember m)"

text \<open>\<^verbatim>\<open>!message?.trim()\<close>\<close>

fun message_is_blank :: "jsstring option \<Rightarrow> bool" where
  "message_is_blank None = True"
| "message_is_blank (Some m) = trim_is_empty m"

definition POST :: "jsstring option \<Rightarrow> ModelOutcome \<Rightarrow> FetchOutcome" where
  "POST message outcome =
     (if message_is_blank message then error_response 400 ''Empty message''
      else case outcome of
        APIError st m \<Rightarrow>
          error_response 500 (''Anthropic API error '' @ show_nat st @ '': '' @ m)
      | OtherError m \<Rightarrow> error_response 500 m
      | ThrownValue \<Rightarrow> error_response 500 ''Unknown error''
      | Content blocks \<Rightarrow>
          (case find is_tool_use blocks of
             Some (ToolUseBlock name engineOutput) \<Rightarrow>
               if name \<noteq> ''socratic_response''
               then error_response 500 ''SocraticEngine did not invoke the required tool''
               else Ok (OkRecord
                      \<lparr> tutor_response = in_tutor_response engineOutput,
                        error_type = in_error_type engineOutput,
                        micro_drill = in_micro_drill engineOutput,
                        whiteboard_instruction =
                          (case in_whiteboard_instruction engineOutput of
                             None \<Rightarrow> DEFAULT_WHITEBOARD | Some w \<Rightarrow> w),
                        knowledge_update = in_knowledge_update engineOutput \<rparr>)
           | _ \<Rightarrow> error_response 500 ''SocraticEngine did not invoke the required tool''))"

text \<open>
  The message that a failed request is to leave, by the kind of failure; a response that
  is ok and parses is no failure. This is the statement that \<open>sendMessage\<close> is compared
  with.
\<close>

fun failure_message :: "FetchOutcome \<Rightarrow> string option" where
  "failure_message (FetchRejected (ErrorObject m)) = Some m"
| "failure_message (FetchRejected NotAnErrorObject) = Some ''Something went wrong''"
| "failure_message (NotOk st NotJson) = Some ''Request failed''"
| "failure_message (NotOk st (NullBody m)) = Some m"
| "failure_message (NotOk st (WithErrorMember m)) = Some m"
| "failure_message (NotOk st WithoutErrorMember) = Some (''HTTP '' @ show_nat st)"
| "failure_message (Ok (OkNotJson m)) = Some m"
| "failure_message (Ok (OkRecord r)) = None"

section \<open>Expression sandbox\<close>

text \<open>
  A JavaScript \<^verbatim>\<open>number\<close> in the sandbox and the sampler: \<open>Some r\<close> is a finite value,
  \<open>None\<close> a value that \<^verbatim>\<open>isFinite\<close> refuses (\<^verbatim>\<open>NaN\<close> or an infinity). Finite values are
  real numbers: the rounding and the overflow of doubles are outside the model.
\<close>

type_synonym number = "real option"

text \<open>The character classes \<^verbatim>\<open>\d\<close> and \<^verbatim>\<open>\w\<close> of a regular expression without the
  flags \<^verbatim>\<open>u\<close> and \<^verbatim>\<open>i\<close>, on code units; the class \<^verbatim>\<open>\s\<close> is \<open>is_white_space\<close>.\<close>

definition is_digit :: "nat \<Rightarrow> bool" where
  "is_digit c = (c \<in> set (ustr ''0123456789''))"

definition is_word_char :: "nat \<Rightarrow> bool" where
  "is_word_char c =
     (c \<in> set (ustr ''abcdefghijklmnopqrstuvwxyzABCDEFGHIJKLMNOPQRSTUVWXYZ0123456789_''))"

text \<open>
  \<^verbatim>\<open>expression.replace(/Math\.\w+/g, 'Math.x')\<close>: from left to right, every occurrence of
  \<^verbatim>\<open>Math.\<close> followed by at least one word character is replaced, together with the longest
  run of word characters after it, by \<^verbatim>\<open>Math.x\<close>; the scan goes on after the match.
\<close>

function replace_Math :: "jsstring \<Rightarrow> jsstring" where
  "replace_Math [] = []"
| "replace_Math (c # cs) =
     (if prefix (ustr ''Math.'') (c # cs) \<and> takeWhile is_word_char (drop 5 (c # cs)) \<noteq> []
      then ustr ''Math.x'' @ replace_Math (dropWhile is_word_char (drop 5 (c # cs)))
      else c # replace_Math cs)"
  by pat_completeness auto
termination
proof (relation "measure length")
  show "wf (measure length)" by simp
next
  fix c :: nat and cs :: jsstring
  have "length (dropWhile is_word_char (drop 5 (c # cs))) \<le> length (drop 5 (c # cs))"
    by (rule length_dropWhile_le)
  then show "(dropWhile is_word_char (drop 5 (c # cs)), c # cs) \<in> measure length"
    by simp
next
  fix c :: nat and cs :: jsstring
  show "(cs, c # cs) \<in> measure length" by simp
qed

text \<open>
  The character class of the regular expression \<^verbatim>\<open>safe\<close>,
  \<^verbatim>\<open>[x\d\s\+\-\*\/\.\(\)Math\.,sincotanlogpowexpabsfloorceiltanh]\<close>: inside the brackets
  every letter stands for itself.
\<close>

definition safe_char :: "nat \<Rightarrow> bool" where
  "safe_char c =
     (c \<in> set (ustr ''x+-*/.()Math.,sincotanlogpowexpabsfloorceiltanh'')
      \<or> is_digit c \<or> is_white_space c)"

text \<open>\<^verbatim>\<open>safe.test(s)\<close> for \<^verbatim>\<open>/^[...]+$/\<close>: \<open>s\<close> is not empty and all its characters are in
  the class.\<close>

definition safe_test :: "jsstring \<Rightarrow> bool" where
  "safe_test s = (s \<noteq> [] \<and> list_all safe_char s)"

text \<open>
  The JavaScript engine is not code of the repository: \<^verbatim>\<open>new Function('x', body)\<close> is the
  argument \<open>newFunction\<close>, which gives no function when the body does not parse, and
  otherwise a function from a number to an outcome: an exception, or a value that is a
  number or is not. A value that is not a number carries the number it converts to, which
  is what \<^verbatim>\<open>isFinite\<close> looks at.
\<close>

datatype JsValue = JsNumber number | JsNotNumber number

datatype JsOutcome = Throws | Returns JsValue

type_synonym JsFunction = "number \<Rightarrow> JsOutcome"

definition function_body :: "jsstring \<Rightarrow> jsstring" where
  "function_body expression =
     ustr ([CHR 0x22] @ ''use strict'' @ [CHR 0x22]
       @ ''; const {sin,cos,tan,log,exp,abs,pow,sqrt,PI,E,floor,ceil,tanh,sinh,cosh,asin,acos,atan} = Math; return '')
       @ expression @ ustr '';''"

fun isFinite :: "JsValue \<Rightarrow> bool" where
  "isFinite (JsNumber v) = (v \<noteq> None)"
| "isFinite (JsNotNumber v) = (v \<noteq> None)"

definition NaN :: JsValue where
  "NaN = JsNumber None"

definition createEvaluator ::
  "(jsstring \<Rightarrow> JsFunction option) \<Rightarrow> jsstring \<Rightarrow> (number \<Rightarrow> JsValue) option" where
  "createEvaluator newFunction expression =
     (if expression = [] then None
      else if \<not> safe_test (replace_Math expression) then None
      else case newFunction (function_body expression) of
             None \<Rightarrow> None
           | Some fn \<Rightarrow>
               (case fn (Some 1) of
                  Throws \<Rightarrow> None
                | Returns (JsNotNumber t) \<Rightarrow> None
                | Returns (JsNumber t) \<Rightarrow>
                    Some (\<lambda>x. case fn x of
                                 Throws \<Rightarrow> NaN
                               | Returns v \<Rightarrow> if isFinite v then v else NaN)))"

text \<open>
  The words of the specification for the allow-list: an expression is made of digits,
  \<^verbatim>\<open>x\<close>, arithmetic operators, parentheses, comma, period and the names of the numeric
  library. \<open>tokens\<close> cuts a string into its longest runs of word characters and its single
  other characters.
\<close>

function tokens :: "jsstring \<Rightarrow> jsstring list" where
  "tokens [] = []"
| "tokens (c # cs) =
     (if is_word_char c
      then (c # takeWhile is_word_char cs) # tokens (dropWhile is_word_char cs)
      else [c] # tokens cs)"
  by pat_completeness auto
termination
proof (relation "measure length")
  show "wf (measure length)" by simp
next
  fix c :: nat and cs :: jsstring
  have "length (dropWhile is_word_char cs) \<le> length cs"
    by (rule length_dropWhile_le)
  then show "(dropWhile is_word_char cs, c # cs) \<in> measure length"
    by simp
next
  fix c :: nat and cs :: jsstring
  show "(cs, c # cs) \<in> measure length" by simp
qed

definition library_names :: "string list" where
  "library_names =
     [''Math'', ''sin'', ''cos'', ''tan'', ''log'', ''exp'', ''abs'', ''pow'', ''sqrt'', ''PI'', ''E'',
      ''floor'', ''ceil'', ''tanh'', ''sinh'', ''cosh'', ''asin'', ''acos'', ''atan'']"

definition allowed_token :: "jsstring \<Rightarrow> bool" where
  "allowed_token t =
     (t = ustr ''x'' \<or> t \<in> set (map ustr library_names) \<or> (t \<noteq> [] \<and> list_all is_digit t)
      \<or> t \<in> set (map ustr [''+'', ''-'', ''*'', ''/'', ''('', '')'', '','', ''.''])
      \<or> (t \<noteq> [] \<and> list_all is_white_space t))"

definition spec_allow_listed :: "jsstring \<Rightarrow> bool" where
  "spec_allow_listed expression = list_all allowed_token (tokens expression)"

section \<open>Curve sampler and path builder\<close>

text \<open>Arithmetic of a number with a finite operand: a non-finite operand gives a
  non-finite result, and so does a division by zero.\<close>

definition num_add :: "number \<Rightarrow> real \<Rightarrow> number" where
  "num_add a b = map_option (\<lambda>r. r + b) a"

definition num_mul :: "number \<Rightarrow> real \<Rightarrow> number" where
  "num_mul a b = map_option (\<lambda>r. r * b) a"

definition num_div :: "number \<Rightarrow> real \<Rightarrow> number" where
  "num_div a b = (case a of None \<Rightarrow> None | Some r \<Rightarrow> if b = 0 then None else Some (r / b))"

definition num_rsub :: "real \<Rightarrow> number \<Rightarrow> number" where
  "num_rsub b a = map_option (\<lambda>r. b - r) a"

text \<open>A draw command of the path: \<^verbatim>\<open>M px py\<close> or \<^verbatim>\<open>L px py\<close>. The source prints the
  coordinates with two decimals and joins the commands with spaces; the model keeps the
  commands.\<close>

datatype PathCommand = MoveTo number number | LineTo number number

text \<open>The sample point \<open>i\<close>: \<^verbatim>\<open>xMin + (i / steps) * (xMax - xMin)\<close>.\<close>

definition sample_x :: "real \<Rightarrow> real \<Rightarrow> nat \<Rightarrow> nat \<Rightarrow> number" where
  "sample_x xMin xMax stepCount i =
     num_add (num_mul (num_div (Some (real i)) (real stepCount)) (xMax - xMin)) xMin"

text \<open>\<^verbatim>\<open>((x - xMin) / (xMax - xMin)) * width\<close> and
  \<^verbatim>\<open>height - ((y - yMin) / (yMax - yMin)) * height\<close>.\<close>

definition canvas_x :: "real \<Rightarrow> real \<Rightarrow> real \<Rightarrow> number \<Rightarrow> number" where
  "canvas_x xMin xMax width x = num_mul (num_div (num_add x (- xMin)) (xMax - xMin)) width"

definition canvas_y :: "real \<Rightarrow> real \<Rightarrow> real \<Rightarrow> real \<Rightarrow> number" where
  "canvas_y yMin yMax height y =
     num_rsub height (num_mul (num_div (Some (y - yMin)) (yMax - yMin)) height)"

text \<open>One round of the loop of \<^verbatim>\<open>generatePath\<close>, on the state \<^verbatim>\<open>(penDown, points)\<close>.\<close>

definition path_step ::
  "(number \<Rightarrow> number) \<Rightarrow> real \<Rightarrow> real \<Rightarrow> real \<Rightarrow> real \<Rightarrow> real \<Rightarrow> real \<Rightarrow> nat \<Rightarrow> nat
     \<Rightarrow> bool \<times> PathCommand list \<Rightarrow> bool \<times> PathCommand list" where
  "path_step fn xMin xMax yMin yMax width height stepCount i st =
     (let penDown = fst st; points = snd st;
          x = sample_x xMin xMax stepCount i;
          y = fn x
      in case y of
           None \<Rightarrow> (False, points)
         | Some yv \<Rightarrow>
             if yv < yMin - 1 \<or> yv > yMax + 1 then (False, points)
             else
               let px = canvas_x xMin xMax width x;
                   py = canvas_y yMin yMax height yv
               in if \<not> penDown then (True, points @ [MoveTo px py])
                  else (True, points @ [LineTo px py]))"

text \<open>\<^verbatim>\<open>generatePath(fn, xMin, xMax, yMin, yMax, width, height, steps)\<close>: the loop runs
  \<open>i\<close> from \<open>0\<close> to \<open>steps\<close>, both included, from the state \<^verbatim>\<open>(false, [])\<close>.\<close>

definition generatePath ::
  "(number \<Rightarrow> number) \<Rightarrow> real \<Rightarrow> real \<Rightarrow> real \<Rightarrow> real \<Rightarrow> real \<Rightarrow> real \<Rightarrow> nat \<Rightarrow> PathCommand list" where
  "generatePath fn xMin xMax yMin yMax width height stepCount =
     snd (fold (path_step fn xMin xMax yMin yMax width height stepCount)
            [0..<Suc stepCount] (False, []))"

text \<open>
  The words of the specification for one sample. A sample is drawn when the evaluated
  value is finite and at most one unit outside \<open>[yMin, yMax]\<close>. A sample that is not
  drawn emits nothing; a drawn sample emits a move-to when it is the first sample or the
  sample before it was not drawn (the pen was up), and a line-to otherwise.
\<close>

definition sample_drawn ::
  "(number \<Rightarrow> number) \<Rightarrow> real \<Rightarrow> real \<Rightarrow> real \<Rightarrow> real \<Rightarrow> nat \<Rightarrow> nat \<Rightarrow> bool" where
  "sample_drawn fn xMin xMax yMin yMax stepCount i =
     (case fn (sample_x xMin xMax stepCount i) of
        None \<Rightarrow> False
      | Some y \<Rightarrow> yMin - 1 \<le> y \<and> y \<le> yMax + 1)"

definition sample_commands ::
  "(number \<Rightarrow> number) \<Rightarrow> real \<Rightarrow> real \<Rightarrow> real \<Rightarrow> real \<Rightarrow> real \<Rightarrow> real \<Rightarrow> nat \<Rightarrow> nat
     \<Rightarrow> PathCommand list" where
  "sample_commands fn xMin xMax yMin yMax width height stepCount i =
     (case fn (sample_x xMin xMax stepCount i) of
        None \<Rightarrow> []
      | Some y \<Rightarrow>
          if \<not> sample_drawn fn xMin xMax yMin yMax stepCount i then []
          else if i = 0 \<or> \<not> sample_drawn fn xMin xMax yMin yMax stepCount (i - 1)
            then [MoveTo (canvas_x xMin xMax width (sample_x xMin xMax stepCount i))
                    (canvas_y yMin yMax height y)]
            else [LineTo (canvas_x xMin xMax width (sample_x xMin xMax stepCount i))
                    (canvas_y yMin yMax height y)])"

text \<open>A path segment starts at each move-to.\<close>

fun is_MoveTo :: "PathCommand \<Rightarrow> bool" where
  "is_MoveTo (MoveTo px py) = True"
| "is_MoveTo (LineTo px py) = False"

definition segment_count :: "PathCommand list \<Rightarrow> nat" where
  "segment_count path = length (filter is_MoveTo path)"

section \<open>Properties of the knowledge graph store\<close>

subsection \<open>Auxiliary facts\<close>

lemma slice_last_length: "length (slice_last n xs) = min n (length xs)"
  by (simp add: slice_last_def)

lemma set_slice_last: "set (slice_last n xs) \<subseteq> set xs"
  by (simp add: slice_last_def set_drop_subset)

lemma set_array_from_set_acc: "set (array_from_set_acc seen xs) = set seen \<union> set xs"
  by (induction seen xs rule: array_from_set_acc.induct) auto

lemma set_array_from_set: "set (array_from_set xs) = set xs"
  by (simp add: array_from_set_def set_array_from_set_acc)

lemma get_set_property: "get_property (set_property obj k v) k = Entry v"
  by (simp add: get_property_def set_property_def)

lemma own_set_property:
  "own (set_property obj k v) =
     (if own obj k = None \<and> k = ''__proto__'' then own obj else (own obj)(k \<mapsto> v))"
  by (auto simp: set_property_def)

lemma proto_set_property:
  "proto (set_property obj k v) =
     (if own obj k = None \<and> k = ''__proto__'' then Some v else proto obj)"
  by (auto simp: set_property_def)

lemma lookup_existing_cases:
  "lookup_existing kg k =
     (case own (topics kg) k of
        Some ts \<Rightarrow> Entry ts
      | None \<Rightarrow> if k = ''__proto__'' then ObjectPrototype
                else if k \<in> set object_prototype_names then PrototypeMember k
                else Entry default_topic)"
  by (simp add: lookup_existing_def get_property_def spread_def nullish_or_def split: option.splits)

lemma lookup_existing_not_Undefined: "lookup_existing kg k \<noteq> Undefined"
  by (simp add: lookup_existing_cases split: option.splits)

text \<open>The update throws exactly when it has an error type to record and the value it
  read for the topic has no array of last errors.\<close>

lemma applyKnowledgeUpdate_throws_iff:
  "applyKnowledgeUpdate kg u e c now = Inl err \<longleftrightarrow>
     e \<noteq> ''None'' \<and> read_lastErrors (lookup_existing kg (topic u)) = None"
  by (cases err)
    (auto simp: applyKnowledgeUpdate_def Let_def recent_errors_def get_set_property
      split: sum.splits option.splits if_splits)

lemma applyKnowledgeUpdate_returns_iff:
  "(\<exists>kg'. applyKnowledgeUpdate kg u e c now = Inr kg') \<longleftrightarrow>
     e = ''None'' \<or> read_lastErrors (lookup_existing kg (topic u)) \<noteq> None"
proof -
  have "(\<exists>kg'. applyKnowledgeUpdate kg u e c now = Inr kg')
      \<longleftrightarrow> \<not> (applyKnowledgeUpdate kg u e c now = Inl TypeError)"
    by (cases "applyKnowledgeUpdate kg u e c now") (auto intro: error.exhaust)
  then show ?thesis
    by (simp add: applyKnowledgeUpdate_throws_iff)
qed

lemma applyKnowledgeUpdate_Inr:
  assumes "applyKnowledgeUpdate kg u e c now = Inr kg'"
  shows "topics kg' = set_property (spread (topics kg)) (topic u) (new_entry kg u e c)"
    and "weakNodes kg' =
          (let weak1 = (case weak_nodes u of
                          Some ws \<Rightarrow> (if length ws > 0 then array_from_set (weakNodes kg @ ws)
                                      else weakNodes kg)
                        | None \<Rightarrow> weakNodes kg)
           in if mastered (new_entry kg u e c) then filter (\<lambda>n. n \<noteq> topic u) weak1 else weak1)"
    and "errorHistory kg' =
          (if e \<noteq> ''None''
           then slice_last 49 (errorHistory kg) @ [\<lparr> err_type = e, err_topic = topic u, timestamp = now \<rparr>]
           else errorHistory kg)"
    and "sessionStats kg' =
          (sessionStats kg)
            \<lparr> totalAttempts := totalAttempts (sessionStats kg) + 1,
              consecutiveFailures := (if c then 0 else consecutiveFailures (sessionStats kg) + 1),
              currentTopic := topic u,
              attemptOnCurrentProblem := (if c then 0 else attemptOnCurrentProblem (sessionStats kg) + 1) \<rparr>"
  using assms
  by (auto simp: applyKnowledgeUpdate_def Let_def recent_errors_def get_set_property new_entry_def
      split: sum.splits option.splits if_splits)

lemma applyKnowledgeUpdate_entry:
  assumes "applyKnowledgeUpdate kg u e c now = Inr kg'"
  shows "get_property (topics kg') (topic u) = Entry (new_entry kg u e c)"
  by (simp add: applyKnowledgeUpdate_Inr(1) [OF assms] get_set_property)

lemma applyKnowledgeUpdate_own_other:
  assumes "applyKnowledgeUpdate kg u e c now = Inr kg'" and "t \<noteq> topic u"
  shows "own (topics kg') t = own (topics kg) t"
  using assms(2)
  by (simp add: applyKnowledgeUpdate_Inr(1) [OF assms(1)] own_set_property spread_def)

lemma applyKnowledgeUpdate_own_same:
  assumes "applyKnowledgeUpdate kg u e c now = Inr kg'"
    and "own (topics kg) (topic u) \<noteq> None \<or> topic u \<noteq> ''__proto__''"
  shows "own (topics kg') (topic u) = Some (new_entry kg u e c)"
  using assms(2)
  by (auto simp: applyKnowledgeUpdate_Inr(1) [OF assms(1)] own_set_property spread_def)

lemma history_ok_update:
  assumes "history_ok kg" and "applyKnowledgeUpdate kg u e c now = Inr kg'"
  shows "history_ok kg'"
  using assms(1) set_slice_last [of 49 "errorHistory kg"]
  by (auto simp: history_ok_def applyKnowledgeUpdate_Inr(3) [OF assms(2)] slice_last_length)

lemma store_reachable_history_ok: "store_reachable kg \<Longrightarrow> history_ok kg"
proof (induction rule: store_reachable.induct)
  case initial
  show ?case by (simp add: history_ok_def createInitialKnowledgeGraph_def)
next
  case (update kg u e c now kg')
  then show ?case by (simp add: history_ok_update)
next
  case (drill kg)
  then show ?case by (simp add: history_ok_def recordMicroDrillCompleted_def)
next
  case (reset kg)
  then show ?case by (simp add: history_ok_def resetAttemptCounter_def)
qed

lemma get_property_plain:
  "proto obj = None \<Longrightarrow> get_property obj k =
     (case own obj k of
        Some ts \<Rightarrow> Entry ts
      | None \<Rightarrow> if k = ''__proto__'' then ObjectPrototype
                else if k \<in> set object_prototype_names then PrototypeMember k
                else Undefined)"
  by (cases "own obj k") (simp_all add: get_property_def)

lemma applyKnowledgeUpdate_proto:
  assumes "applyKnowledgeUpdate kg u e c now = Inr kg'"
  shows "proto (topics kg') =
     (if own (topics kg) (topic u) = None \<and> topic u = ''__proto__''
      then Some (new_entry kg u e c) else None)"
  by (auto simp: applyKnowledgeUpdate_Inr(1) [OF assms] proto_set_property spread_def)

lemma update_returns_absent_plain:
  assumes "own (topics kg) (topic u) = None" and "topic u \<notin> set object_prototype_names"
  shows "\<exists>kg'. applyKnowledgeUpdate kg u e c now = Inr kg'"
proof -
  from assms have "lookup_existing kg (topic u) = Entry default_topic"
    by (auto simp: lookup_existing_cases object_prototype_names_def)
  then show ?thesis
    by (simp add: applyKnowledgeUpdate_returns_iff default_topic_def)
qed

lemma proto_name: "''__proto__'' \<in> set object_prototype_names"
  by (simp add: object_prototype_names_def)

text \<open>The update reads a topic state for its topic exactly when the topic is an own
  property, or is absent and no property name of \<^verbatim>\<open>Object.prototype\<close>; in the second case
  the state is the default.\<close>

lemma lookup_existing_Entry_iff:
  "lookup_existing kg k = Entry old \<longleftrightarrow>
     own (topics kg) k = Some old
     \<or> (own (topics kg) k = None \<and> k \<notin> set object_prototype_names \<and> old = default_topic)"
  by (auto simp: lookup_existing_cases proto_name split: option.splits)

subsection \<open>Topics named like a member of \<^verbatim>\<open>Object.prototype\<close>\<close>

text \<open>
  The three claims of this subsection fail for one reason. \<^verbatim>\<open>topics\<close> is a plain object,
  and the update reads \<^verbatim>\<open>next.topics[topic] ?? { ...default }\<close> and assigns
  \<^verbatim>\<open>next.topics[topic] = { ... }\<close> without asking whether \<^verbatim>\<open>topic\<close> is an own property. For
  a topic that is absent from the graph and named like a member of \<^verbatim>\<open>Object.prototype\<close>,
  the read finds the inherited member, not \<^verbatim>\<open>undefined\<close>, and the default is not taken; for
  the name \<^verbatim>\<open>__proto__\<close> the assignment goes to the inherited setter. For every other topic
  the update behaves as the claims say, which the lemmas after each theorem state.
\<close>

text \<open>
  Claim C6 says that the confidence score of the updated topic lies between 0 and 100
  for every graph and every delta, an absent topic starting at 50. For the topic
  \<^verbatim>\<open>constructor\<close>, absent from the empty graph, the update with error type \<^verbatim>\<open>'None'\<close>
  stores the score \<^verbatim>\<open>NaN\<close> (and \<^verbatim>\<open>NaN\<close> attempts, no array of last errors), and the update
  with another error type throws a \<^verbatim>\<open>TypeError\<close>; for the topic \<^verbatim>\<open>limits\<close> the same update
  stores 60.
\<close>

theorem inherited_member_score:
  "applyKnowledgeUpdate createInitialKnowledgeGraph
     \<lparr> topic = ''constructor'', confidence_delta = 10, upd_mastered = None, weak_nodes = None \<rparr>
     ''None'' True 7
     = Inr \<lparr> topics = \<lparr> own = [''constructor'' \<mapsto>
                                \<lparr> mastered = False, confidenceScore = None, attempts = None,
                                  lastErrors = None \<rparr>],
                        proto = None \<rparr>,
             weakNodes = [], errorHistory = [],
             sessionStats = \<lparr> totalAttempts = 1, consecutiveFailures = 0,
                              microDrillsCompleted = 0, currentTopic = ''constructor'',
                              attemptOnCurrentProblem = 0 \<rparr> \<rparr>
   \<and> applyKnowledgeUpdate createInitialKnowledgeGraph
     \<lparr> topic = ''constructor'', confidence_delta = - 10, upd_mastered = None, weak_nodes = None \<rparr>
     ''Sign Error'' False 7
     = Inl TypeError
   \<and> applyKnowledgeUpdate createInitialKnowledgeGraph
     \<lparr> topic = ''limits'', confidence_delta = 10, upd_mastered = None, weak_nodes = None \<rparr>
     ''None'' True 7
     = Inr \<lparr> topics = \<lparr> own = [''limits'' \<mapsto>
                                \<lparr> mastered = False, confidenceScore = Some 60, attempts = Some 1,
                                  lastErrors = Some [] \<rparr>],
                        proto = None \<rparr>,
             weakNodes = [], errorHistory = [],
             sessionStats = \<lparr> totalAttempts = 1, consecutiveFailures = 0,
                              microDrillsCompleted = 0, currentTopic = ''limits'',
                              attemptOnCurrentProblem = 0 \<rparr> \<rparr>"
  by (simp add: applyKnowledgeUpdate_def createInitialKnowledgeGraph_def lookup_existing_def
      get_property_def set_property_def spread_def nullish_or_def object_prototype_names_def
      recent_errors_def clamp_score_def at_least_85_def default_topic_def Let_def)

text \<open>For a topic that the update reads as a topic state with a score, the new score is
  the clamped sum, so it lies between 0 and 100, and the new flag is the explicit flag,
  or without one the test on the clamped sum and the answer.\<close>

lemma confidence_in_range_plain:
  assumes "lookup_existing kg (topic u) = Entry old" and "confidenceScore old = Some v"
    and "applyKnowledgeUpdate kg u e c now = Inr kg'"
  shows "\<exists>ts. get_property (topics kg') (topic u) = Entry ts
      \<and> confidenceScore ts = Some (min 100 (max 0 (v + confidence_delta u)))
      \<and> (mastered ts \<longleftrightarrow>
            upd_mastered u = Some True
            \<or> (upd_mastered u = None \<and> c \<and> 85 \<le> min 100 (max 0 (v + confidence_delta u))))"
  using assms(1,2)
  by (auto simp: applyKnowledgeUpdate_entry [OF assms(3)] new_entry_def Let_def clamp_score_def
      at_least_85_def split: option.splits)

lemma confidence_in_range_examples:
  "min 100 (max 0 ((95::int) + 20)) = 100 \<and> min 100 (max 0 ((5::int) + - 30)) = 0"
  by simp

text \<open>
  Claim C5 says that the updated topic is mastered exactly when the update carries the
  explicit flag \<open>mastered = true\<close>, or carries no flag while the answer is correct and the
  clamped new score is at least 85. For the topic \<^verbatim>\<open>constructor\<close>, absent from the empty
  graph, with delta 40, no flag and a correct answer, the clamped new score of an absent
  topic is 90, and the update stores \<open>mastered = false\<close>, because the score it computes
  is \<^verbatim>\<open>NaN\<close>; for the topic \<^verbatim>\<open>limits\<close> the same update stores \<open>mastered = true\<close>.
\<close>

theorem inherited_member_not_mastered:
  "applyKnowledgeUpdate createInitialKnowledgeGraph
     \<lparr> topic = ''constructor'', confidence_delta = 40, upd_mastered = None, weak_nodes = None \<rparr>
     ''None'' True 7
     = Inr \<lparr> topics = \<lparr> own = [''constructor'' \<mapsto>
                                \<lparr> mastered = False, confidenceScore = None, attempts = None,
                                  lastErrors = None \<rparr>],
                        proto = None \<rparr>,
             weakNodes = [], errorHistory = [],
             sessionStats = \<lparr> totalAttempts = 1, consecutiveFailures = 0,
                              microDrillsCompleted = 0, currentTopic = ''constructor'',
                              attemptOnCurrentProblem = 0 \<rparr> \<rparr>
   \<and> own (topics createInitialKnowledgeGraph) ''constructor'' = None
   \<and> at_least_85 (clamp_score (Some (50 + 40)))
   \<and> applyKnowledgeUpdate createInitialKnowledgeGraph
     \<lparr> topic = ''limits'', confidence_delta = 40, upd_mastered = None, weak_nodes = None \<rparr>
     ''None'' True 7
     = Inr \<lparr> topics = \<lparr> own = [''limits'' \<mapsto>
                                \<lparr> mastered = True, confidenceScore = Some 90, attempts = Some 1,
                                  lastErrors = Some [] \<rparr>],
                        proto = None \<rparr>,
             weakNodes = [], errorHistory = [],
             sessionStats = \<lparr> totalAttempts = 1, consecutiveFailures = 0,
                              microDrillsCompleted = 0, currentTopic = ''limits'',
                              attemptOnCurrentProblem = 0 \<rparr> \<rparr>"
  by (simp add: applyKnowledgeUpdate_def createInitialKnowledgeGraph_def lookup_existing_def
      get_property_def set_property_def spread_def nullish_or_def object_prototype_names_def
      recent_errors_def clamp_score_def at_least_85_def default_topic_def Let_def)

text \<open>The second half of the claim holds for every topic: a topic that is mastered
  after the update is no weak node after it.\<close>

lemma mastered_not_weak:
  assumes "applyKnowledgeUpdate kg u e c now = Inr kg'"
    and "get_property (topics kg') (topic u) = Entry ts" and "mastered ts"
  shows "topic u \<notin> set (weakNodes kg')"
  using assms(2,3)
  by (simp add: applyKnowledgeUpdate_entry [OF assms(1)] applyKnowledgeUpdate_Inr(2) [OF assms(1)] Let_def)

text \<open>
  Claim C10 says that the update leaves \<^verbatim>\<open>topics[t]\<close> unchanged for every name \<open>t\<close> other
  than the topic of the update. For the topic \<^verbatim>\<open>__proto__\<close>, absent from the empty graph,
  the assignment makes the new topic state the prototype of the result's \<^verbatim>\<open>topics\<close> and
  adds no property: \<^verbatim>\<open>topics['mastered']\<close> is \<^verbatim>\<open>undefined\<close> before the update and
  \<^verbatim>\<open>false\<close> after it.
\<close>

theorem proto_topic_breaks_frame:
  "applyKnowledgeUpdate createInitialKnowledgeGraph
     \<lparr> topic = ''__proto__'', confidence_delta = 10, upd_mastered = None, weak_nodes = None \<rparr>
     ''None'' True 7
     = Inr \<lparr> topics = \<lparr> own = Map.empty,
                        proto = Some \<lparr> mastered = False, confidenceScore = None, attempts = None,
                                       lastErrors = None \<rparr> \<rparr>,
             weakNodes = [], errorHistory = [],
             sessionStats = \<lparr> totalAttempts = 1, consecutiveFailures = 0,
                              microDrillsCompleted = 0, currentTopic = ''__proto__'',
                              attemptOnCurrentProblem = 0 \<rparr> \<rparr>
   \<and> get_property (topics createInitialKnowledgeGraph) ''mastered'' = Undefined
   \<and> get_property
        \<lparr> own = Map.empty,
          proto = Some \<lparr> mastered = False, confidenceScore = None, attempts = None,
                         lastErrors = None \<rparr> \<rparr> ''mastered''
       = BooleanValue False
   \<and> ''mastered'' \<noteq> ''__proto__''"
  by (simp add: applyKnowledgeUpdate_def createInitialKnowledgeGraph_def lookup_existing_def
      get_property_def set_property_def spread_def nullish_or_def object_prototype_names_def
      recent_errors_def clamp_score_def at_least_85_def default_topic_def Let_def)

text \<open>The frame holds when the topic of the update is not an absent \<^verbatim>\<open>__proto__\<close> (and the
  prototype of the input's \<^verbatim>\<open>topics\<close> is \<^verbatim>\<open>Object.prototype\<close>, as it is after every load):
  every other name reads as before. The counter of completed drills is never touched.\<close>

lemma frame_other_topics:
  assumes "applyKnowledgeUpdate kg u e c now = Inr kg'" and "t \<noteq> topic u"
    and "proto (topics kg) = None"
    and "own (topics kg) (topic u) \<noteq> None \<or> topic u \<noteq> ''__proto__''"
  shows "get_property (topics kg') t = get_property (topics kg) t"
proof -
  from assms(4) have "proto (topics kg') = None"
    by (auto simp: applyKnowledgeUpdate_proto [OF assms(1)])
  then have "get_property (topics kg') t =
     (case own (topics kg') t of
        Some ts \<Rightarrow> Entry ts
      | None \<Rightarrow> if t = ''__proto__'' then ObjectPrototype
                else if t \<in> set object_prototype_names then PrototypeMember t
                else Undefined)"
    by (rule get_property_plain)
  also have "own (topics kg') t = own (topics kg) t"
    using assms(1,2) by (rule applyKnowledgeUpdate_own_other)
  also have "(case own (topics kg) t of
        Some ts \<Rightarrow> Entry ts
      | None \<Rightarrow> if t = ''__proto__'' then ObjectPrototype
                else if t \<in> set object_prototype_names then PrototypeMember t
                else Undefined) = get_property (topics kg) t"
    using assms(3) by (rule get_property_plain [symmetric])
  finally show ?thesis .
qed

lemma frame_microDrillsCompleted:
  assumes "applyKnowledgeUpdate kg u e c now = Inr kg'"
  shows "microDrillsCompleted (sessionStats kg') = microDrillsCompleted (sessionStats kg)"
  by (simp add: applyKnowledgeUpdate_Inr(4) [OF assms])

subsection \<open>The bounded error history\<close>

text \<open>
  Claim C7. The error history is a bounded first-in first-out buffer. Every graph the
  store builds from the empty graph has at most 50 entries, none of type \<^verbatim>\<open>'None'\<close>.
  An update returns a graph exactly when its error type is \<^verbatim>\<open>'None'\<close> or the value it
  reads for its topic has an array of last errors. An update that returns keeps both
  bounds: with the error type \<^verbatim>\<open>'None'\<close> it inserts nothing; with any other it appends its
  record at the end, and drops the oldest entry, the first one, when the history is full.
\<close>

theorem error_history_bounded_fifo:
  "(store_reachable kg \<longrightarrow> history_ok kg)
   \<and> ((\<exists>kg'. applyKnowledgeUpdate kg u e c now = Inr kg') \<longleftrightarrow>
        e = ''None'' \<or> read_lastErrors (lookup_existing kg (topic u)) \<noteq> None)
   \<and> (history_ok kg \<longrightarrow>
        (\<forall>kg'. applyKnowledgeUpdate kg u e c now = Inr kg' \<longrightarrow>
           history_ok kg'
           \<and> errorHistory kg' =
               (if e = ''None'' then errorHistory kg
                else if length (errorHistory kg) < 50
                  then errorHistory kg @ [\<lparr> err_type = e, err_topic = topic u, timestamp = now \<rparr>]
                  else tl (errorHistory kg) @ [\<lparr> err_type = e, err_topic = topic u, timestamp = now \<rparr>])))"
proof -
  have reach: "store_reachable kg \<longrightarrow> history_ok kg"
    by (simp add: store_reachable_history_ok)
  have returns: "(\<exists>kg'. applyKnowledgeUpdate kg u e c now = Inr kg') \<longleftrightarrow>
        e = ''None'' \<or> read_lastErrors (lookup_existing kg (topic u)) \<noteq> None"
    by (rule applyKnowledgeUpdate_returns_iff)
  have step: "history_ok kg'
        \<and> errorHistory kg' =
            (if e = ''None'' then errorHistory kg
             else if length (errorHistory kg) < 50
               then errorHistory kg @ [\<lparr> err_type = e, err_topic = topic u, timestamp = now \<rparr>]
               else tl (errorHistory kg) @ [\<lparr> err_type = e, err_topic = topic u, timestamp = now \<rparr>])"
    if ok: "history_ok kg" and run: "applyKnowledgeUpdate kg u e c now = Inr kg'" for kg'
  proof -
    from ok have len: "length (errorHistory kg) \<le> 50"
      by (simp add: history_ok_def)
    have "slice_last 49 (errorHistory kg)
            = (if length (errorHistory kg) < 50 then errorHistory kg else tl (errorHistory kg))"
    proof (cases "length (errorHistory kg) < 50")
      case True
      then show ?thesis by (simp add: slice_last_def)
    next
      case False
      with len have "length (errorHistory kg) = 50" by simp
      then show ?thesis by (simp add: slice_last_def drop_Suc)
    qed
    then show ?thesis
      using history_ok_update [OF ok run]
      by (simp add: applyKnowledgeUpdate_Inr(3) [OF run])
  qed
  from reach returns step show ?thesis by blast
qed

theorem error_history_bounded_fifo_witness:
  "(case applyKnowledgeUpdate createInitialKnowledgeGraph
        \<lparr> topic = ''limits'', confidence_delta = - 10, upd_mastered = None, weak_nodes = None \<rparr>
        ''Sign Error'' False 7 of
      Inr kg' \<Rightarrow> history_ok kg'
        \<and> errorHistory kg' = [\<lparr> err_type = ''Sign Error'', err_topic = ''limits'', timestamp = 7 \<rparr>]
    | Inl err \<Rightarrow> False)
   \<and> length (errorHistory (createInitialKnowledgeGraph
        \<lparr> errorHistory := map (\<lambda>i. \<lparr> err_type = ''Sign Error'', err_topic = ''limits'', timestamp = i \<rparr>) [0..<50] \<rparr>)) = 50
   \<and> (case applyKnowledgeUpdate
        (createInitialKnowledgeGraph
           \<lparr> errorHistory := map (\<lambda>i. \<lparr> err_type = ''Sign Error'', err_topic = ''limits'', timestamp = i \<rparr>) [0..<50] \<rparr>)
        \<lparr> topic = ''series'', confidence_delta = - 10, upd_mastered = None, weak_nodes = None \<rparr>
        ''Arithmetic Error'' False 99 of
      Inr kg' \<Rightarrow> errorHistory kg'
        = map (\<lambda>i. \<lparr> err_type = ''Sign Error'', err_topic = ''limits'', timestamp = i \<rparr>) [1..<50]
            @ [\<lparr> err_type = ''Arithmetic Error'', err_topic = ''series'', timestamp = 99 \<rparr>]
    | Inl err \<Rightarrow> False)"
proof -
  let ?u = "\<lparr> topic = ''limits'', confidence_delta = - 10, upd_mastered = None, weak_nodes = None \<rparr>"
  let ?v = "\<lparr> topic = ''series'', confidence_delta = - 10, upd_mastered = None, weak_nodes = None \<rparr>"
  let ?h = "map (\<lambda>i. \<lparr> err_type = ''Sign Error'', err_topic = ''limits'', timestamp = i \<rparr>) [0..<50]"
  let ?g = "createInitialKnowledgeGraph \<lparr> errorHistory := ?h \<rparr>"
  have absent: "lookup_existing createInitialKnowledgeGraph ''limits'' = Entry default_topic"
    "lookup_existing ?g ''series'' = Entry default_topic"
    by (simp_all add: lookup_existing_cases createInitialKnowledgeGraph_def object_prototype_names_def)
  obtain kg1 where r1: "applyKnowledgeUpdate createInitialKnowledgeGraph ?u ''Sign Error'' False 7 = Inr kg1"
    using applyKnowledgeUpdate_returns_iff [of createInitialKnowledgeGraph ?u "''Sign Error''" False 7] absent
    by (auto simp: default_topic_def)
  obtain kg2 where r2: "applyKnowledgeUpdate ?g ?v ''Arithmetic Error'' False 99 = Inr kg2"
    using applyKnowledgeUpdate_returns_iff [of ?g ?v "''Arithmetic Error''" False 99] absent
    by (auto simp: default_topic_def)
  have ok0: "history_ok createInitialKnowledgeGraph"
    using error_history_bounded_fifo [of createInitialKnowledgeGraph] store_reachable.initial
    by blast
  have ok: "history_ok ?g"
    by (auto simp: history_ok_def)
  have tl: "tl ?h = map (\<lambda>i. \<lparr> err_type = ''Sign Error'', err_topic = ''limits'', timestamp = i \<rparr>) [1..<50]"
    by (simp add: map_tl [symmetric] del: upt.simps)
  have e0: "errorHistory createInitialKnowledgeGraph = []"
    by (simp add: createInitialKnowledgeGraph_def)
  from error_history_bounded_fifo [of createInitialKnowledgeGraph ?u "''Sign Error''" False 7] ok0 r1
  have a: "history_ok kg1
      \<and> errorHistory kg1 = [\<lparr> err_type = ''Sign Error'', err_topic = ''limits'', timestamp = 7 \<rparr>]"
    by (simp add: e0)
  from error_history_bounded_fifo [of ?g ?v "''Arithmetic Error''" False 99] ok r2 tl
  have b: "errorHistory kg2
      = map (\<lambda>i. \<lparr> err_type = ''Sign Error'', err_topic = ''limits'', timestamp = i \<rparr>) [1..<50]
            @ [\<lparr> err_type = ''Arithmetic Error'', err_topic = ''series'', timestamp = 99 \<rparr>]"
    by simp
  have c: "length (errorHistory ?g) = 50"
    by simp
  from a b c show ?thesis
    by (simp only: r1 r2 sum.case)
qed

subsection \<open>Mastery is not sticky\<close>

text \<open>
  Claim C2 says that a mastered flag, once true, is never set back to false by an update.
  The update does not look at the old flag: a mastered topic that receives an update
  without an explicit flag and with a wrong answer is not mastered afterwards.
\<close>

theorem sticky_mastery_counterexample:
  "own (topics
      (createInitialKnowledgeGraph
         \<lparr> topics := \<lparr> own = [''limits'' \<mapsto> \<lparr> mastered = True, confidenceScore = Some 90,
                                             attempts = Some 3, lastErrors = Some [] \<rparr>],
                       proto = None \<rparr> \<rparr>)) ''limits''
     = Some \<lparr> mastered = True, confidenceScore = Some 90, attempts = Some 3, lastErrors = Some [] \<rparr>
   \<and> (case applyKnowledgeUpdate
         (createInitialKnowledgeGraph
            \<lparr> topics := \<lparr> own = [''limits'' \<mapsto> \<lparr> mastered = True, confidenceScore = Some 90,
                                                attempts = Some 3, lastErrors = Some [] \<rparr>],
                          proto = None \<rparr> \<rparr>)
         \<lparr> topic = ''limits'', confidence_delta = - 10, upd_mastered = None, weak_nodes = None \<rparr>
         ''Sign Error'' False 7 of
       Inr kg' \<Rightarrow> own (topics kg') ''limits''
         = Some \<lparr> mastered = False, confidenceScore = Some 80, attempts = Some 4,
                  lastErrors = Some [''Sign Error''] \<rparr>
     | Inl err \<Rightarrow> False)"
  by (simp add: applyKnowledgeUpdate_def createInitialKnowledgeGraph_def lookup_existing_def
      get_property_def set_property_def spread_def nullish_or_def
      recent_errors_def clamp_score_def at_least_85_def slice_last_def Let_def)

text \<open>
  Claim C2, amended. A topic of the graph that is mastered is still present after any
  update that returns, and it is still mastered exactly when the update names another
  topic, or carries the explicit flag \<open>mastered = true\<close>, or carries no flag while the
  answer is correct and the clamped new score is at least 85. The update of a topic of
  the graph returns whenever the error type is \<^verbatim>\<open>'None'\<close> or the topic has its array of
  last errors.
\<close>

theorem mastery_kept_exactly_when:
  "(own (topics kg) t = Some old \<and> mastered old
    \<and> applyKnowledgeUpdate kg u e c now = Inr kg' \<longrightarrow>
      (\<exists>ts. own (topics kg') t = Some ts
         \<and> (mastered ts \<longleftrightarrow>
              t \<noteq> topic u
              \<or> upd_mastered u = Some True
              \<or> (upd_mastered u = None \<and> c
                  \<and> (\<exists>v. confidenceScore old = Some v
                         \<and> 85 \<le> min 100 (max 0 (v + confidence_delta u)))))))
   \<and> (own (topics kg) (topic u) = Some old \<and> (e = ''None'' \<or> lastErrors old \<noteq> None) \<longrightarrow>
        (\<exists>kg'. applyKnowledgeUpdate kg u e c now = Inr kg'))"
proof (intro conjI impI)
  assume "own (topics kg) (topic u) = Some old \<and> (e = ''None'' \<or> lastErrors old \<noteq> None)"
  then show "\<exists>kg'. applyKnowledgeUpdate kg u e c now = Inr kg'"
    by (auto simp: applyKnowledgeUpdate_returns_iff lookup_existing_cases)
next
  assume "own (topics kg) t = Some old \<and> mastered old
    \<and> applyKnowledgeUpdate kg u e c now = Inr kg'"
  then have old: "own (topics kg) t = Some old" and m: "mastered old"
    and run: "applyKnowledgeUpdate kg u e c now = Inr kg'"
    by simp_all
  show "\<exists>ts. own (topics kg') t = Some ts
        \<and> (mastered ts \<longleftrightarrow>
             t \<noteq> topic u
             \<or> upd_mastered u = Some True
             \<or> (upd_mastered u = None \<and> c
                 \<and> (\<exists>v. confidenceScore old = Some v
                        \<and> 85 \<le> min 100 (max 0 (v + confidence_delta u)))))"
  proof (cases "t = topic u")
    case False
    with old m show ?thesis
      by (simp add: applyKnowledgeUpdate_own_other [OF run])
  next
    case True
    with old have "own (topics kg') t = Some (new_entry kg u e c)"
      using applyKnowledgeUpdate_own_same [OF run] by simp
    moreover from True old have "lookup_existing kg (topic u) = Entry old"
      by (simp add: lookup_existing_cases)
    ultimately show ?thesis
      using True
      by (auto simp: new_entry_def Let_def clamp_score_def at_least_85_def split: option.splits)
  qed
qed

theorem mastery_kept_exactly_when_witness:
  "(case applyKnowledgeUpdate
         (createInitialKnowledgeGraph
            \<lparr> topics := \<lparr> own = [''limits'' \<mapsto> \<lparr> mastered = True, confidenceScore = Some 90,
                                                attempts = Some 3, lastErrors = Some [] \<rparr>],
                          proto = None \<rparr> \<rparr>)
         \<lparr> topic = ''limits'', confidence_delta = 5, upd_mastered = None, weak_nodes = None \<rparr>
         ''None'' True 7 of
       Inr kg' \<Rightarrow> (\<exists>ts. own (topics kg') ''limits'' = Some ts \<and> mastered ts)
     | Inl err \<Rightarrow> False)
   \<and> (case applyKnowledgeUpdate
         (createInitialKnowledgeGraph
            \<lparr> topics := \<lparr> own = [''limits'' \<mapsto> \<lparr> mastered = True, confidenceScore = Some 90,
                                                attempts = Some 3, lastErrors = Some [] \<rparr>],
                          proto = None \<rparr> \<rparr>)
         \<lparr> topic = ''limits'', confidence_delta = 5, upd_mastered = Some False, weak_nodes = None \<rparr>
         ''None'' True 7 of
       Inr kg' \<Rightarrow> (\<exists>ts. own (topics kg') ''limits'' = Some ts \<and> \<not> mastered ts)
     | Inl err \<Rightarrow> False)"
proof -
  let ?old = "\<lparr> mastered = True, confidenceScore = Some 90, attempts = Some 3, lastErrors = Some [] \<rparr>"
  let ?g = "createInitialKnowledgeGraph \<lparr> topics := \<lparr> own = [''limits'' \<mapsto> ?old], proto = None \<rparr> \<rparr>"
  let ?u1 = "\<lparr> topic = ''limits'', confidence_delta = 5, upd_mastered = None, weak_nodes = None \<rparr>"
  let ?u2 = "\<lparr> topic = ''limits'', confidence_delta = 5, upd_mastered = Some False, weak_nodes = None \<rparr>"
  have old: "own (topics ?g) ''limits'' = Some ?old" "mastered ?old"
    by simp_all
  from mastery_kept_exactly_when [of ?g "''limits''" ?old ?u1 "''None''" True 7]
  obtain kg1 where r1: "applyKnowledgeUpdate ?g ?u1 ''None'' True 7 = Inr kg1"
    by auto
  from mastery_kept_exactly_when [of ?g "''limits''" ?old ?u2 "''None''" True 7]
  obtain kg2 where r2: "applyKnowledgeUpdate ?g ?u2 ''None'' True 7 = Inr kg2"
    by auto
  from mastery_kept_exactly_when [of ?g "''limits''" ?old ?u1 "''None''" True 7 kg1] old r1
  have a: "\<exists>ts. own (topics kg1) ''limits'' = Some ts \<and> mastered ts"
    by simp
  from mastery_kept_exactly_when [of ?g "''limits''" ?old ?u2 "''None''" True 7 kg2] old r2
  have b: "\<exists>ts. own (topics kg2) ''limits'' = Some ts \<and> \<not> mastered ts"
    by simp
  from a b show ?thesis
    by (simp only: r1 r2 sum.case)
qed

subsection \<open>The drill trigger\<close>

text \<open>The frequency object: what it holds for each key after the window, and what the
  test on its values comes to.\<close>

lemma map_of_bump_Count:
  "map_of (map (\<lambda>(k', v'). if k' = k then (k', Count c) else (k', v')) fr) k' =
     (if k' = k then (if map_of fr k = None then None else Some (Count c)) else map_of fr k')"
  by (induction fr) (auto split: prod.splits)

lemma keys_bump_Count:
  "map fst (map (\<lambda>(k', v'). if k' = k then (k', Count c) else (k', v')) fr) = map fst fr"
  by (induction fr) (auto split: prod.splits)

lemma bump_represents:
  assumes "\<And>k. map_of freq k = freq_value (m k) k"
  shows "map_of (bump freq x) k = freq_value ((m(x := m x + 1)) k) k"
proof (cases "map_of freq x")
  case None
  with assms [of x] have "m x = 0 \<or> x = ''__proto__''"
    by (auto simp: freq_value_def split: if_splits)
  with None assms [of k] show ?thesis
    by (auto simp: bump_def freq_value_def map_add_def proto_name split: option.splits)
next
  case (Some v)
  show ?thesis
  proof (cases v)
    case (Count c)
    with Some assms [of x] have "x \<notin> set object_prototype_names" "m x = c" "c \<noteq> 0"
      by (auto simp: freq_value_def split: if_splits)
    with Some Count assms [of k] show ?thesis
      by (auto simp: bump_def map_of_bump_Count freq_value_def proto_name)
  next
    case Text
    with Some assms [of x] have "x \<in> set object_prototype_names" "x \<noteq> ''__proto__''" "m x \<noteq> 0"
      by (auto simp: freq_value_def split: if_splits)
    with Some Text assms [of k] show ?thesis
      by (cases "k = x") (simp_all add: bump_def freq_value_def)
  qed
qed

lemma fold_bump_represents:
  assumes "\<And>k. map_of acc k = freq_value (m k) k"
  shows "map_of (fold (\<lambda>r freq. bump freq (f r)) xs acc) k
           = freq_value (m k + count_list (map f xs) k) k"
  using assms
proof (induction xs arbitrary: acc m)
  case Nil
  then show ?case by simp
next
  case (Cons x xs)
  have "map_of (fold (\<lambda>r freq. bump freq (f r)) xs (bump acc (f x))) k
      = freq_value ((m(f x := m (f x) + 1)) k + count_list (map f xs) k) k"
    by (rule Cons.IH) (rule bump_represents, rule Cons.prems)
  then show ?case by simp
qed

lemma keys_bump:
  "map fst (bump freq k) = map fst freq
   \<or> (map fst (bump freq k) = map fst freq @ [k] \<and> k \<notin> fst ` set freq)"
proof (cases "map_of freq k")
  case None
  then have "k \<notin> fst ` set freq"
    by (simp add: map_of_eq_None_iff)
  with None show ?thesis
    by (simp add: bump_def)
next
  case (Some v)
  show ?thesis
  proof (cases v)
    case (Count c)
    have "map fst (bump freq k)
        = map fst (map (\<lambda>(k', v'). if k' = k then (k', Count (c + 1)) else (k', v')) freq)"
      using Some Count by (simp add: bump_def)
    then have "map fst (bump freq k) = map fst freq"
      by (simp only: keys_bump_Count)
    then show ?thesis ..
  next
    case Text
    with Some show ?thesis by (simp add: bump_def)
  qed
qed

lemma distinct_keys_bump: "distinct (map fst freq) \<Longrightarrow> distinct (map fst (bump freq k))"
  using keys_bump [of freq k] by auto

lemma distinct_keys_fold_bump:
  "distinct (map fst acc) \<Longrightarrow> distinct (map fst (fold (\<lambda>r freq. bump freq (f r)) xs acc))"
  by (induction xs arbitrary: acc) (simp_all add: distinct_keys_bump)

lemma map_of_getErrorFrequency:
  "map_of (getErrorFrequency kg) k
     = freq_value (count_list (map err_type (slice_last 30 (errorHistory kg))) k) k"
  unfolding getErrorFrequency_def
  using fold_bump_represents [where acc = "[]" and m = "\<lambda>k. 0" and f = err_type
      and xs = "slice_last 30 (errorHistory kg)" and k = k]
  by (simp add: freq_value_def)

lemma list_ex_values:
  assumes "distinct (map fst freq)"
  shows "list_ex P (map snd freq) \<longleftrightarrow> (\<exists>k c. map_of freq k = Some c \<and> P c)"
proof -
  have "list_ex P (map snd freq) \<longleftrightarrow> (\<exists>k c. (k, c) \<in> set freq \<and> P c)"
    by (force simp: list_ex_iff)
  also have "\<dots> \<longleftrightarrow> (\<exists>k c. map_of freq k = Some c \<and> P c)"
    using assms by (metis map_of_SomeD map_of_is_SomeI)
  finally show ?thesis .
qed

lemma shouldTriggerMicroDrill_iff:
  "shouldTriggerMicroDrill kg \<longleftrightarrow>
     (\<exists>k. k \<notin> set object_prototype_names
        \<and> count_list (map err_type (slice_last 30 (errorHistory kg))) k \<ge> 3)"
proof -
  have d: "distinct (map fst (getErrorFrequency kg))"
    unfolding getErrorFrequency_def by (rule distinct_keys_fold_bump) simp
  have "(\<exists>v. map_of (getErrorFrequency kg) k = Some v \<and> at_least_3 v) \<longleftrightarrow>
          k \<notin> set object_prototype_names
          \<and> 3 \<le> count_list (map err_type (slice_last 30 (errorHistory kg))) k" for k
    by (auto simp: map_of_getErrorFrequency freq_value_def proto_name split: if_splits)
  then show ?thesis
    unfolding shouldTriggerMicroDrill_def list_ex_values [OF d] by blast
qed

lemma spec_drill_trigger_iff:
  "spec_drill_trigger kg \<longleftrightarrow>
     (\<exists>k. k \<noteq> ''None'' \<and> count_list (map err_type (slice_last 30 (errorHistory kg))) k \<ge> 3)"
proof -
  have "count_list xs k \<ge> 3 \<Longrightarrow> k \<in> set xs" for xs :: "string list" and k
    by (metis count_list_0_iff not_numeral_le_zero)
  then show ?thesis
    unfolding spec_drill_trigger_def Let_def list_ex_iff by blast
qed

lemma error_kinds_plain: "k \<in> set ERROR_TYPES \<Longrightarrow> k \<notin> set object_prototype_names"
  by (auto simp: ERROR_TYPES_def object_prototype_names_def)

lemma history_plain_update:
  assumes "history_plain kg" and "e \<notin> set object_prototype_names"
    and "applyKnowledgeUpdate kg u e c now = Inr kg'"
  shows "history_plain kg'"
  using assms(1,2) set_slice_last [of 49 "errorHistory kg"]
  by (auto simp: history_plain_def applyKnowledgeUpdate_Inr(3) [OF assms(3)])

lemma shouldTriggerMicroDrill_plain:
  assumes "history_plain kg"
  shows "shouldTriggerMicroDrill kg \<longleftrightarrow> spec_drill_trigger kg"
proof -
  let ?w = "map err_type (slice_last 30 (errorHistory kg))"
  have in_window: "k \<in> set ?w" if "count_list ?w k \<ge> 3" for k
    using that by (metis count_list_0_iff not_numeral_le_zero)
  have plain: "k \<noteq> ''None'' \<and> k \<notin> set object_prototype_names" if "k \<in> set ?w" for k
  proof -
    from that obtain r where "r \<in> set (slice_last 30 (errorHistory kg))" and "k = err_type r"
      by auto
    moreover have "set (slice_last 30 (errorHistory kg)) \<subseteq> set (errorHistory kg)"
      by (rule set_slice_last)
    ultimately show ?thesis
      using assms by (auto simp: history_plain_def)
  qed
  have "(\<exists>k. k \<notin> set object_prototype_names \<and> count_list ?w k \<ge> 3)
      \<longleftrightarrow> (\<exists>k. k \<noteq> ''None'' \<and> count_list ?w k \<ge> 3)"
    using in_window plain by blast
  then show ?thesis
    by (simp only: shouldTriggerMicroDrill_iff spec_drill_trigger_iff)
qed

text \<open>
  Claim C4. \<^verbatim>\<open>shouldTriggerMicroDrill\<close> returns false on an empty history, and on every
  plain history it returns true exactly when some kind other than \<^verbatim>\<open>None\<close> occurs at least
  three times among the last 30 entries. The histories of the program are plain: the
  empty graph has a plain history, the operations of the store keep it plain as long as
  the error types they are given are no property names of \<^verbatim>\<open>Object.prototype\<close> (a record
  of type \<^verbatim>\<open>'None'\<close> is never inserted), and the seven members of the enumeration are no
  such names.
\<close>

theorem drill_trigger_on_plain_history:
  "(errorHistory kg = [] \<longrightarrow> \<not> shouldTriggerMicroDrill kg)
   \<and> (history_plain kg \<longrightarrow> (shouldTriggerMicroDrill kg \<longleftrightarrow> spec_drill_trigger kg))
   \<and> history_plain createInitialKnowledgeGraph
   \<and> (history_plain kg \<and> e \<notin> set object_prototype_names \<longrightarrow>
        (\<forall>kg'. applyKnowledgeUpdate kg u e c now = Inr kg' \<longrightarrow> history_plain kg'))
   \<and> (history_plain kg \<longrightarrow>
        history_plain (recordMicroDrillCompleted kg) \<and> history_plain (resetAttemptCounter kg))
   \<and> (\<forall>k \<in> set ERROR_TYPES. k \<notin> set object_prototype_names)"
proof -
  have empty: "errorHistory kg = [] \<longrightarrow> \<not> shouldTriggerMicroDrill kg"
    by (simp add: shouldTriggerMicroDrill_def getErrorFrequency_def slice_last_def)
  have agree: "history_plain kg \<longrightarrow> (shouldTriggerMicroDrill kg \<longleftrightarrow> spec_drill_trigger kg)"
    by (simp add: shouldTriggerMicroDrill_plain)
  have init: "history_plain createInitialKnowledgeGraph"
    by (simp add: history_plain_def createInitialKnowledgeGraph_def)
  have step: "history_plain kg \<and> e \<notin> set object_prototype_names \<longrightarrow>
        (\<forall>kg'. applyKnowledgeUpdate kg u e c now = Inr kg' \<longrightarrow> history_plain kg')"
    using history_plain_update by blast
  have others: "history_plain kg \<longrightarrow>
        history_plain (recordMicroDrillCompleted kg) \<and> history_plain (resetAttemptCounter kg)"
    by (simp add: history_plain_def recordMicroDrillCompleted_def resetAttemptCounter_def)
  have kinds: "\<forall>k \<in> set ERROR_TYPES. k \<notin> set object_prototype_names"
    using error_kinds_plain by blast
  from empty agree init step others kinds show ?thesis
    by (intro conjI)
qed

theorem drill_trigger_on_plain_history_witness:
  "shouldTriggerMicroDrill
     (createInitialKnowledgeGraph
        \<lparr> errorHistory :=
            [\<lparr> err_type = ''Sign Error'', err_topic = ''limits'', timestamp = 1 \<rparr>,
             \<lparr> err_type = ''Wrong Theorem'', err_topic = ''limits'', timestamp = 2 \<rparr>,
             \<lparr> err_type = ''Sign Error'', err_topic = ''series'', timestamp = 3 \<rparr>,
             \<lparr> err_type = ''Sign Error'', err_topic = ''limits'', timestamp = 4 \<rparr>] \<rparr>)
   \<and> \<not> shouldTriggerMicroDrill
     (createInitialKnowledgeGraph
        \<lparr> errorHistory :=
            [\<lparr> err_type = ''Sign Error'', err_topic = ''limits'', timestamp = 1 \<rparr>,
             \<lparr> err_type = ''Wrong Theorem'', err_topic = ''limits'', timestamp = 2 \<rparr>,
             \<lparr> err_type = ''Sign Error'', err_topic = ''series'', timestamp = 3 \<rparr>] \<rparr>)
   \<and> \<not> shouldTriggerMicroDrill createInitialKnowledgeGraph"
proof -
  let ?g3 = "createInitialKnowledgeGraph
        \<lparr> errorHistory :=
            [\<lparr> err_type = ''Sign Error'', err_topic = ''limits'', timestamp = 1 \<rparr>,
             \<lparr> err_type = ''Wrong Theorem'', err_topic = ''limits'', timestamp = 2 \<rparr>,
             \<lparr> err_type = ''Sign Error'', err_topic = ''series'', timestamp = 3 \<rparr>,
             \<lparr> err_type = ''Sign Error'', err_topic = ''limits'', timestamp = 4 \<rparr>] \<rparr>"
  let ?g2 = "createInitialKnowledgeGraph
        \<lparr> errorHistory :=
            [\<lparr> err_type = ''Sign Error'', err_topic = ''limits'', timestamp = 1 \<rparr>,
             \<lparr> err_type = ''Wrong Theorem'', err_topic = ''limits'', timestamp = 2 \<rparr>,
             \<lparr> err_type = ''Sign Error'', err_topic = ''series'', timestamp = 3 \<rparr>] \<rparr>"
  have p3: "history_plain ?g3" and p2: "history_plain ?g2"
    by (simp_all add: history_plain_def object_prototype_names_def)
  have s3: "spec_drill_trigger ?g3" and s2: "\<not> spec_drill_trigger ?g2"
    by (simp_all add: spec_drill_trigger_def slice_last_def)
  have e: "errorHistory createInitialKnowledgeGraph = []"
    by (simp add: createInitialKnowledgeGraph_def)
  from drill_trigger_on_plain_history [of ?g3] p3 s3
  have t3: "shouldTriggerMicroDrill ?g3" by blast
  from drill_trigger_on_plain_history [of ?g2] p2 s2
  have t2: "\<not> shouldTriggerMicroDrill ?g2" by blast
  from drill_trigger_on_plain_history [of createInitialKnowledgeGraph] e
  have t0: "\<not> shouldTriggerMicroDrill createInitialKnowledgeGraph" by blast
  from t3 t2 t0 show ?thesis by (intro conjI)
qed

text \<open>Outside the plain histories the function counts what the frequency object holds:
  a record of type \<^verbatim>\<open>'None'\<close> counts like any other, and a type that is a property name
  of \<^verbatim>\<open>Object.prototype\<close> never counts.\<close>

lemma drill_trigger_outside_plain_histories:
  "shouldTriggerMicroDrill
     (createInitialKnowledgeGraph
        \<lparr> errorHistory := replicate 3 \<lparr> err_type = ''None'', err_topic = ''limits'', timestamp = 1 \<rparr> \<rparr>)
   \<and> \<not> shouldTriggerMicroDrill
     (createInitialKnowledgeGraph
        \<lparr> errorHistory := replicate 3 \<lparr> err_type = ''constructor'', err_topic = ''limits'', timestamp = 1 \<rparr> \<rparr>)"
  by (simp add: shouldTriggerMicroDrill_iff slice_last_def object_prototype_names_def
      numeral_3_eq_3)

section \<open>Properties of the session state machine\<close>

subsection \<open>The micro-drill flag\<close>

lemma reducer_ENGINE_RESPONSE_Inl:
  "reducer env state (ENGINE_RESPONSE payload) = Inl err \<longleftrightarrow>
     applyKnowledgeUpdate (knowledgeGraph state) (knowledge_update payload) (error_type payload)
       (error_type payload = ''None'') (update_clock env) = Inl err"
  by (simp add: Let_def split: sum.splits)

lemma reducer_ENGINE_RESPONSE_Inr:
  assumes "applyKnowledgeUpdate (knowledgeGraph state) (knowledge_update payload) (error_type payload)
       (error_type payload = ''None'') (update_clock env) = Inr kg'"
  shows "\<exists>state'. reducer env state (ENGINE_RESPONSE payload) = Inr state'
      \<and> microDrillActive state' = micro_drill payload
      \<and> error state' = error state
      \<and> knowledgeGraph state' = (if micro_drill payload then recordMicroDrillCompleted kg' else kg')"
  using assms by (simp add: Let_def)

lemma reducer_throws_iff:
  "(\<exists>err. reducer env state a = Inl err) \<longleftrightarrow>
     (\<exists>payload err. a = ENGINE_RESPONSE payload
        \<and> applyKnowledgeUpdate (knowledgeGraph state) (knowledge_update payload)
            (error_type payload) (error_type payload = ''None'') (update_clock env) = Inl err)"
proof (cases a)
  case (ENGINE_RESPONSE payload)
  then show ?thesis
    by (simp only: reducer_ENGINE_RESPONSE_Inl) blast
qed simp_all

lemma reducer_flag:
  assumes "reducer env state a = Inr state'"
  shows "microDrillActive state' =
     (case a of
        ENGINE_RESPONSE payload \<Rightarrow> micro_drill payload
      | DISMISS_MICRO_DRILL \<Rightarrow> False
      | RESET_SESSION \<Rightarrow> False
      | _ \<Rightarrow> microDrillActive state)"
  using assms
  by (cases a) (auto simp: Let_def createInitialState_def split: sum.splits)

lemma reducer_drill_topic:
  assumes "reducer env state (ENGINE_RESPONSE payload) = Inr state'" and "micro_drill payload"
  shows "microDrillActive state' \<and> microDrillTopic state' = Some (topic (knowledge_update payload))"
  using assms by (auto simp: Let_def split: sum.splits)

lemma reducer_dismiss:
  assumes "reducer env state DISMISS_MICRO_DRILL = Inr state'"
  shows "\<not> microDrillActive state' \<and> microDrillTopic state' = None
      \<and> attemptOnCurrentProblem (sessionStats (knowledgeGraph state')) = 0
      \<and> consecutiveFailures (sessionStats (knowledgeGraph state')) = 0"
  using assms by (auto simp: resetAttemptCounter_def)

text \<open>
  Claim C3 says that the micro-drill flag, once active, is cleared by the dismissal only,
  and in particular not by a later response whose drill flag is false. The reducer
  assigns the drill flag of every applied response to \<open>microDrillActive\<close>: a response
  without a drill clears an active flag.
\<close>

theorem drill_flag_cleared_counterexample:
  "(case reducer \<lparr> update_clock = 7, fresh_id = ''id-1'', message_clock = 8 \<rparr> createInitialState
        (ENGINE_RESPONSE
           \<lparr> tutor_response = ustr ''Try a drill.'', error_type = ''Sign Error'', micro_drill = True,
             whiteboard_instruction = INITIAL_WHITEBOARD,
             knowledge_update =
               \<lparr> topic = ''limits'', confidence_delta = - 10, upd_mastered = None, weak_nodes = None \<rparr> \<rparr>) of
      Inr state1 \<Rightarrow>
        microDrillActive state1
        \<and> (case reducer \<lparr> update_clock = 17, fresh_id = ''id-2'', message_clock = 18 \<rparr> state1
              (ENGINE_RESPONSE
                 \<lparr> tutor_response = ustr ''What is the limit?'', error_type = ''None'',
                   micro_drill = False, whiteboard_instruction = INITIAL_WHITEBOARD,
                   knowledge_update =
                     \<lparr> topic = ''limits'', confidence_delta = 10, upd_mastered = None,
                       weak_nodes = None \<rparr> \<rparr>) of
             Inr state2 \<Rightarrow> \<not> microDrillActive state2
           | Inl err \<Rightarrow> False)
    | Inl err \<Rightarrow> False)"
proof -
  let ?env1 = "\<lparr> update_clock = 7, fresh_id = ''id-1'', message_clock = 8 \<rparr>"
  let ?env2 = "\<lparr> update_clock = 17, fresh_id = ''id-2'', message_clock = 18 \<rparr>"
  let ?r1 = "\<lparr> tutor_response = ustr ''Try a drill.'', error_type = ''Sign Error'', micro_drill = True,
             whiteboard_instruction = INITIAL_WHITEBOARD,
             knowledge_update =
               \<lparr> topic = ''limits'', confidence_delta = - 10, upd_mastered = None, weak_nodes = None \<rparr> \<rparr>"
  let ?r2 = "\<lparr> tutor_response = ustr ''What is the limit?'', error_type = ''None'',
                   micro_drill = False, whiteboard_instruction = INITIAL_WHITEBOARD,
                   knowledge_update =
                     \<lparr> topic = ''limits'', confidence_delta = 10, upd_mastered = None,
                       weak_nodes = None \<rparr> \<rparr>"
  have "\<exists>kg'. applyKnowledgeUpdate (knowledgeGraph createInitialState) (knowledge_update ?r1)
      (error_type ?r1) (error_type ?r1 = ''None'') (update_clock ?env1) = Inr kg'"
    by (rule update_returns_absent_plain)
      (simp_all add: createInitialState_def createInitialKnowledgeGraph_def object_prototype_names_def)
  then obtain state1 where s1: "reducer ?env1 createInitialState (ENGINE_RESPONSE ?r1) = Inr state1"
    and f1: "microDrillActive state1 = micro_drill ?r1"
    using reducer_ENGINE_RESPONSE_Inr [of createInitialState ?r1 ?env1] by blast
  have "\<exists>kg'. applyKnowledgeUpdate (knowledgeGraph state1) (knowledge_update ?r2)
      (error_type ?r2) (error_type ?r2 = ''None'') (update_clock ?env2) = Inr kg'"
    by (simp add: applyKnowledgeUpdate_returns_iff)
  then obtain state2 where s2: "reducer ?env2 state1 (ENGINE_RESPONSE ?r2) = Inr state2"
    and f2: "microDrillActive state2 = micro_drill ?r2"
    using reducer_ENGINE_RESPONSE_Inr [of state1 ?r2 ?env2] by blast
  from f1 f2 have "microDrillActive state1 \<and> \<not> microDrillActive state2"
    by simp
  then show ?thesis
    by (simp add: s1 s2 del: reducer.simps)
qed

text \<open>
  Claim C3, amended. The reducer throws only in the case \<^verbatim>\<open>ENGINE_RESPONSE\<close>, when the
  update of the knowledge graph throws. Otherwise, after an applied response the flag is
  the drill flag of that response, and a response that signals a drill records its topic;
  the dismissal and the session reset clear the flag; every other action leaves it as it
  was. The dismissal also clears the recorded topic and sets \<open>attemptOnCurrentProblem\<close>
  and \<open>consecutiveFailures\<close> to 0.
\<close>

theorem drill_flag_transitions:
  "((\<exists>err. reducer env state a = Inl err) \<longleftrightarrow>
      (\<exists>payload err. a = ENGINE_RESPONSE payload
         \<and> applyKnowledgeUpdate (knowledgeGraph state) (knowledge_update payload)
             (error_type payload) (error_type payload = ''None'') (update_clock env) = Inl err))
   \<and> (\<forall>state'. reducer env state a = Inr state' \<longrightarrow>
        microDrillActive state' =
          (case a of
             ENGINE_RESPONSE payload \<Rightarrow> micro_drill payload
           | DISMISS_MICRO_DRILL \<Rightarrow> False
           | RESET_SESSION \<Rightarrow> False
           | _ \<Rightarrow> microDrillActive state)
        \<and> (\<forall>payload. a = ENGINE_RESPONSE payload \<and> micro_drill payload \<longrightarrow>
               microDrillActive state'
               \<and> microDrillTopic state' = Some (topic (knowledge_update payload)))
        \<and> (a = DISMISS_MICRO_DRILL \<longrightarrow>
               \<not> microDrillActive state'
               \<and> microDrillTopic state' = None
               \<and> attemptOnCurrentProblem (sessionStats (knowledgeGraph state')) = 0
               \<and> consecutiveFailures (sessionStats (knowledgeGraph state')) = 0))"
proof (intro conjI allI impI)
  show "(\<exists>err. reducer env state a = Inl err) \<longleftrightarrow>
      (\<exists>payload err. a = ENGINE_RESPONSE payload
         \<and> applyKnowledgeUpdate (knowledgeGraph state) (knowledge_update payload)
             (error_type payload) (error_type payload = ''None'') (update_clock env) = Inl err)"
    by (rule reducer_throws_iff)
next
  fix state'
  assume "reducer env state a = Inr state'"
  then show "microDrillActive state' =
          (case a of
             ENGINE_RESPONSE payload \<Rightarrow> micro_drill payload
           | DISMISS_MICRO_DRILL \<Rightarrow> False
           | RESET_SESSION \<Rightarrow> False
           | _ \<Rightarrow> microDrillActive state)"
    by (rule reducer_flag)
next
  fix state' payload
  assume "reducer env state a = Inr state'" and "a = ENGINE_RESPONSE payload \<and> micro_drill payload"
  then show "microDrillActive state'"
    and "microDrillTopic state' = Some (topic (knowledge_update payload))"
    using reducer_drill_topic [of env state payload state'] by simp_all
next
  fix state'
  assume "reducer env state a = Inr state'" and "a = DISMISS_MICRO_DRILL"
  then show "\<not> microDrillActive state'" and "microDrillTopic state' = None"
    and "attemptOnCurrentProblem (sessionStats (knowledgeGraph state')) = 0"
    and "consecutiveFailures (sessionStats (knowledgeGraph state')) = 0"
    using reducer_dismiss [of env state state'] by simp_all
qed

theorem drill_flag_transitions_witness:
  "(case reducer \<lparr> update_clock = 7, fresh_id = ''id-1'', message_clock = 8 \<rparr> createInitialState
        (ENGINE_RESPONSE
           \<lparr> tutor_response = ustr ''Try a drill.'', error_type = ''Sign Error'', micro_drill = True,
             whiteboard_instruction = INITIAL_WHITEBOARD,
             knowledge_update =
               \<lparr> topic = ''limits'', confidence_delta = - 10, upd_mastered = None, weak_nodes = None \<rparr> \<rparr>) of
      Inr state1 \<Rightarrow>
        microDrillActive state1
        \<and> microDrillTopic state1 = Some ''limits''
        \<and> (case reducer \<lparr> update_clock = 9, fresh_id = ''id-2'', message_clock = 9 \<rparr> state1
              DISMISS_MICRO_DRILL of
             Inr state2 \<Rightarrow>
               \<not> microDrillActive state2
               \<and> microDrillTopic state2 = None
               \<and> attemptOnCurrentProblem (sessionStats (knowledgeGraph state2)) = 0
               \<and> consecutiveFailures (sessionStats (knowledgeGraph state2)) = 0
           | Inl err \<Rightarrow> False)
    | Inl err \<Rightarrow> False)"
proof -
  let ?env1 = "\<lparr> update_clock = 7, fresh_id = ''id-1'', message_clock = 8 \<rparr>"
  let ?env2 = "\<lparr> update_clock = 9, fresh_id = ''id-2'', message_clock = 9 \<rparr>"
  let ?r1 = "\<lparr> tutor_response = ustr ''Try a drill.'', error_type = ''Sign Error'', micro_drill = True,
             whiteboard_instruction = INITIAL_WHITEBOARD,
             knowledge_update =
               \<lparr> topic = ''limits'', confidence_delta = - 10, upd_mastered = None, weak_nodes = None \<rparr> \<rparr>"
  have "\<exists>kg'. applyKnowledgeUpdate (knowledgeGraph createInitialState) (knowledge_update ?r1)
      (error_type ?r1) (error_type ?r1 = ''None'') (update_clock ?env1) = Inr kg'"
    by (rule update_returns_absent_plain)
      (simp_all add: createInitialState_def createInitialKnowledgeGraph_def object_prototype_names_def)
  then have "\<not> (\<exists>err. reducer ?env1 createInitialState (ENGINE_RESPONSE ?r1) = Inl err)"
    using drill_flag_transitions [of ?env1 createInitialState "ENGINE_RESPONSE ?r1"] by auto
  then obtain state1 where s1: "reducer ?env1 createInitialState (ENGINE_RESPONSE ?r1) = Inr state1"
    by (cases "reducer ?env1 createInitialState (ENGINE_RESPONSE ?r1)") auto
  have "\<not> (\<exists>err. reducer ?env2 state1 DISMISS_MICRO_DRILL = Inl err)"
    using drill_flag_transitions [of ?env2 state1 DISMISS_MICRO_DRILL] by simp
  then obtain state2 where s2: "reducer ?env2 state1 DISMISS_MICRO_DRILL = Inr state2"
    by (cases "reducer ?env2 state1 DISMISS_MICRO_DRILL") auto
  from drill_flag_transitions [of ?env1 createInitialState "ENGINE_RESPONSE ?r1"] s1
  have a: "microDrillActive state1 \<and> microDrillTopic state1 = Some ''limits''"
    by (auto simp del: reducer.simps)
  from drill_flag_transitions [of ?env2 state1 DISMISS_MICRO_DRILL] s2
  have b: "\<not> microDrillActive state2 \<and> microDrillTopic state2 = None
      \<and> attemptOnCurrentProblem (sessionStats (knowledgeGraph state2)) = 0
      \<and> consecutiveFailures (sessionStats (knowledgeGraph state2)) = 0"
    by (auto simp del: reducer.simps)
  from a b show ?thesis
    by (simp add: s1 s2 del: reducer.simps)
qed

subsection \<open>A failed turn\<close>

lemma sendMessage_failure:
  assumes "\<not> trim_is_empty txt" and "\<not> isLoading state" and "try_fetch outcome = Inl thrown"
  shows "sendMessage uid clock env outcome state txt =
     Inr (state \<lparr> messages := messages state
                     @ [\<lparr> msg_id = uid, role = User, content = txt, errorType = None,
                          msg_timestamp = clock, isMicroDrill = None \<rparr>],
                  conversationHistory := conversationHistory state
                     @ [\<lparr> cm_role = User, cm_content = txt \<rparr>],
                  error := Some (catch_message thrown),
                  isLoading := False,
                  isStreaming := False,
                  streamingText := [] \<rparr>)"
  using assms by (simp add: sendMessage_def dispatch_def Let_def)

lemma sendMessage_success:
  assumes "\<not> trim_is_empty txt" and "\<not> isLoading state" and "try_fetch outcome = Inr r"
  shows "sendMessage uid clock env outcome state txt =
     reducer env
       (state \<lparr> messages := messages state
                     @ [\<lparr> msg_id = uid, role = User, content = txt, errorType = None,
                          msg_timestamp = clock, isMicroDrill = None \<rparr>],
                  conversationHistory := conversationHistory state
                     @ [\<lparr> cm_role = User, cm_content = txt \<rparr>],
                  error := None,
                  isLoading := True,
                  isStreaming := True,
                  streamingText := [] \<rparr>)
       (ENGINE_RESPONSE r)"
  using assms by (simp add: sendMessage_def dispatch_def Let_def del: reducer.simps(6))

lemma failure_message_try_fetch:
  "failure_message outcome = Some m \<longleftrightarrow> (\<exists>thrown. try_fetch outcome = Inl thrown \<and> catch_message thrown = m)"
  by (cases outcome rule: failure_message.cases) auto

lemma failure_message_None:
  "failure_message outcome = None \<longleftrightarrow> (\<exists>r. outcome = Ok (OkRecord r))"
  by (cases outcome rule: failure_message.cases) auto

lemma POST_tool_not_invoked:
  assumes "\<not> message_is_blank message"
    and "find is_tool_use blocks = None
           \<or> (\<exists>name inp. find is_tool_use blocks = Some (ToolUseBlock name inp)
                 \<and> name \<noteq> ''socratic_response'')"
  shows "POST message (Content blocks)
        = NotOk 500 (WithErrorMember ''SocraticEngine did not invoke the required tool'')"
  using assms by (auto simp: POST_def error_response_def)

text \<open>
  Claim C8 says that every failure of a turn, a malformed record included, ends with an
  error message that the user sees, the idle state and the knowledge graph of before. The
  client dispatches whatever record a successful response carries: a record whose
  \<open>error_type\<close> is outside the enumeration is applied to the graph like any other, and no
  error is shown. And a response that is not ok with the empty string as its \<^verbatim>\<open>error\<close>
  member leaves the empty message, which the error panel does not render.
\<close>

theorem malformed_record_applied_counterexample:
  "''Typo'' \<notin> set ERROR_TYPES
   \<and> errorHistory (knowledgeGraph createInitialState) = []
   \<and> (case sendMessage ''id-0'' 5 \<lparr> update_clock = 7, fresh_id = ''id-1'', message_clock = 8 \<rparr>
        (Ok (OkRecord
           \<lparr> tutor_response = ustr ''Hm.'', error_type = ''Typo'', micro_drill = False,
             whiteboard_instruction = INITIAL_WHITEBOARD,
             knowledge_update =
               \<lparr> topic = ''limits'', confidence_delta = - 10, upd_mastered = None, weak_nodes = None \<rparr> \<rparr>))
        createInitialState (ustr ''x squared'') of
        Inr state' \<Rightarrow>
          \<not> error_shown state'
          \<and> errorHistory (knowledgeGraph state')
              = [\<lparr> err_type = ''Typo'', err_topic = ''limits'', timestamp = 7 \<rparr>]
      | Inl err \<Rightarrow> False)
   \<and> (case sendMessage ''id-0'' 5 \<lparr> update_clock = 7, fresh_id = ''id-1'', message_clock = 8 \<rparr>
        (NotOk 500 (WithErrorMember [])) createInitialState (ustr ''x squared'') of
        Inr state' \<Rightarrow> \<not> error_shown state' \<and> \<not> isLoading state'
      | Inl err \<Rightarrow> False)"
proof -
  let ?env = "\<lparr> update_clock = 7, fresh_id = ''id-1'', message_clock = 8 \<rparr>"
  let ?u = "\<lparr> topic = ''limits'', confidence_delta = - 10, upd_mastered = None, weak_nodes = None \<rparr>"
  let ?r = "\<lparr> tutor_response = ustr ''Hm.'', error_type = ''Typo'', micro_drill = False,
             whiteboard_instruction = INITIAL_WHITEBOARD, knowledge_update = ?u \<rparr>"
  let ?s = "createInitialState
       \<lparr> messages := messages createInitialState
            @ [\<lparr> msg_id = ''id-0'', role = User, content = ustr ''x squared'', errorType = None,
                 msg_timestamp = 5, isMicroDrill = None \<rparr>],
         conversationHistory := conversationHistory createInitialState
            @ [\<lparr> cm_role = User, cm_content = ustr ''x squared'' \<rparr>],
         error := None, isLoading := True, isStreaming := True, streamingText := [] \<rparr>"
  have blank: "\<not> trim_is_empty (ustr ''x squared'')"
    by (simp add: trim_is_empty_def is_white_space_def ustr_def)
  have idle: "\<not> isLoading createInitialState"
    by (simp add: createInitialState_def)
  have typo: "''Typo'' \<notin> set ERROR_TYPES"
    by (simp add: ERROR_TYPES_def)
  have empty: "errorHistory (knowledgeGraph createInitialState) = []"
    by (simp add: createInitialState_def createInitialKnowledgeGraph_def)
  have kg: "knowledgeGraph ?s = createInitialKnowledgeGraph"
    by (simp add: createInitialState_def)
  have "\<exists>kg'. applyKnowledgeUpdate createInitialKnowledgeGraph ?u ''Typo'' False 7 = Inr kg'"
    by (rule update_returns_absent_plain)
      (simp_all add: createInitialKnowledgeGraph_def object_prototype_names_def)
  then obtain kg' where run: "applyKnowledgeUpdate createInitialKnowledgeGraph ?u ''Typo'' False 7 = Inr kg'"
    by blast
  have hist: "errorHistory kg' = [\<lparr> err_type = ''Typo'', err_topic = ''limits'', timestamp = 7 \<rparr>]"
    by (simp add: applyKnowledgeUpdate_Inr(3) [OF run] createInitialKnowledgeGraph_def slice_last_def)
  from run kg
  have "applyKnowledgeUpdate (knowledgeGraph ?s) (knowledge_update ?r) (error_type ?r)
      (error_type ?r = ''None'') (update_clock ?env) = Inr kg'"
    by simp
  from reducer_ENGINE_RESPONSE_Inr [OF this]
  obtain state' where red: "reducer ?env ?s (ENGINE_RESPONSE ?r) = Inr state'"
    and err: "error state' = error ?s"
    and kg2: "knowledgeGraph state' = (if micro_drill ?r then recordMicroDrillCompleted kg' else kg')"
    by blast
  have applied: "sendMessage ''id-0'' 5 ?env (Ok (OkRecord ?r)) createInitialState (ustr ''x squared'')
      = Inr state'"
    using sendMessage_success [OF blank idle, of "Ok (OkRecord ?r)" ?r "''id-0''" 5 ?env] red
    by simp
  have a: "\<not> error_shown state'
      \<and> errorHistory (knowledgeGraph state') = [\<lparr> err_type = ''Typo'', err_topic = ''limits'', timestamp = 7 \<rparr>]"
    using err kg2 hist by (simp add: error_shown_def)
  have failed: "sendMessage ''id-0'' 5 ?env (NotOk 500 (WithErrorMember [])) createInitialState
        (ustr ''x squared'')
      = Inr (createInitialState
       \<lparr> messages := messages createInitialState
            @ [\<lparr> msg_id = ''id-0'', role = User, content = ustr ''x squared'', errorType = None,
                 msg_timestamp = 5, isMicroDrill = None \<rparr>],
         conversationHistory := conversationHistory createInitialState
            @ [\<lparr> cm_role = User, cm_content = ustr ''x squared'' \<rparr>],
         error := Some (catch_message (ErrorObject [])), isLoading := False, isStreaming := False,
         streamingText := [] \<rparr>)"
    by (rule sendMessage_failure [OF blank idle]) simp
  have b: "case sendMessage ''id-0'' 5 ?env (NotOk 500 (WithErrorMember [])) createInitialState
        (ustr ''x squared'') of
        Inr state' \<Rightarrow> \<not> error_shown state' \<and> \<not> isLoading state'
      | Inl err \<Rightarrow> False"
    by (simp add: failed error_shown_def)
  from typo empty a b show ?thesis
    by (simp add: applied)
qed

text \<open>
  Claim C8, amended. When the text is not blank and no request is pending, every outcome
  of the request other than a successful response with a body that parses (a rejected
  \<^verbatim>\<open>fetch\<close>, a response that is not ok, a body that is not JSON) ends the turn with the
  message of the failure as the error of the session, \<open>isLoading\<close> and \<open>isStreaming\<close> false,
  and the knowledge graph of before; the error panel shows the message exactly when it is
  not the empty string. The route handler answers a reply of the model that does not
  invoke the tool \<^verbatim>\<open>socratic_response\<close> with status 500 and a message that is not empty:
  that turn ends with the message shown.
\<close>

theorem failed_turn_keeps_graph:
  "(\<not> trim_is_empty txt \<and> \<not> isLoading state \<and> failure_message outcome = Some m \<longrightarrow>
      (\<exists>state'. sendMessage uid clock env outcome state txt = Inr state'
         \<and> error state' = Some m
         \<and> (error_shown state' \<longleftrightarrow> m \<noteq> [])
         \<and> \<not> isLoading state'
         \<and> \<not> isStreaming state'
         \<and> knowledgeGraph state' = knowledgeGraph state))
   \<and> (failure_message outcome = None \<longleftrightarrow> (\<exists>r. outcome = Ok (OkRecord r)))
   \<and> (\<not> message_is_blank message
       \<and> (find is_tool_use blocks = None
           \<or> (\<exists>name inp. find is_tool_use blocks = Some (ToolUseBlock name inp)
                 \<and> name \<noteq> ''socratic_response'')) \<longrightarrow>
      POST message (Content blocks)
        = NotOk 500 (WithErrorMember ''SocraticEngine did not invoke the required tool'')
      \<and> failure_message (POST message (Content blocks))
        = Some ''SocraticEngine did not invoke the required tool''
      \<and> (\<not> trim_is_empty txt \<and> \<not> isLoading state \<longrightarrow>
           (\<exists>state'. sendMessage uid clock env (POST message (Content blocks)) state txt = Inr state'
              \<and> error_shown state'
              \<and> \<not> isLoading state'
              \<and> knowledgeGraph state' = knowledgeGraph state)))"
proof -
  have client: "\<exists>state'. sendMessage uid clock env outcome state txt = Inr state'
         \<and> error state' = Some m
         \<and> (error_shown state' \<longleftrightarrow> m \<noteq> [])
         \<and> \<not> isLoading state'
         \<and> \<not> isStreaming state'
         \<and> knowledgeGraph state' = knowledgeGraph state"
    if "\<not> trim_is_empty txt" and "\<not> isLoading state" and "failure_message outcome = Some m"
    for outcome m
  proof -
    from that(3) obtain thrown where "try_fetch outcome = Inl thrown" and "catch_message thrown = m"
      by (auto simp: failure_message_try_fetch)
    then show ?thesis
      by (simp add: sendMessage_failure [OF that(1,2)] error_shown_def)
  qed
  have server: "POST message (Content blocks)
        = NotOk 500 (WithErrorMember ''SocraticEngine did not invoke the required tool'')"
    if "\<not> message_is_blank message"
      and "find is_tool_use blocks = None
           \<or> (\<exists>name inp. find is_tool_use blocks = Some (ToolUseBlock name inp)
                 \<and> name \<noteq> ''socratic_response'')"
    using that by (rule POST_tool_not_invoked)
  have shown: "\<exists>state'. sendMessage uid clock env
           (NotOk 500 (WithErrorMember ''SocraticEngine did not invoke the required tool'')) state txt
              = Inr state'
         \<and> error_shown state' \<and> \<not> isLoading state' \<and> knowledgeGraph state' = knowledgeGraph state"
    if "\<not> trim_is_empty txt" and "\<not> isLoading state"
    using client [OF that, of "NotOk 500 (WithErrorMember ''SocraticEngine did not invoke the required tool'')"
        "''SocraticEngine did not invoke the required tool''"]
    by auto
  have post: "failure_message (NotOk 500 (WithErrorMember ''SocraticEngine did not invoke the required tool''))
      = Some ''SocraticEngine did not invoke the required tool''"
    by simp
  show ?thesis
  proof (intro conjI impI)
    assume "\<not> trim_is_empty txt \<and> \<not> isLoading state \<and> failure_message outcome = Some m"
    then show "\<exists>state'. sendMessage uid clock env outcome state txt = Inr state'
         \<and> error state' = Some m
         \<and> (error_shown state' \<longleftrightarrow> m \<noteq> [])
         \<and> \<not> isLoading state'
         \<and> \<not> isStreaming state'
         \<and> knowledgeGraph state' = knowledgeGraph state"
      using client [of outcome m] by blast
  next
    show "failure_message outcome = None \<longleftrightarrow> (\<exists>r. outcome = Ok (OkRecord r))"
      by (rule failure_message_None)
  next
    assume h: "\<not> message_is_blank message
       \<and> (find is_tool_use blocks = None
           \<or> (\<exists>name inp. find is_tool_use blocks = Some (ToolUseBlock name inp)
                 \<and> name \<noteq> ''socratic_response''))"
    then show p: "POST message (Content blocks)
        = NotOk 500 (WithErrorMember ''SocraticEngine did not invoke the required tool'')"
      using server by blast
    then show "failure_message (POST message (Content blocks))
        = Some ''SocraticEngine did not invoke the required tool''"
      by (simp only: post)
    assume "\<not> trim_is_empty txt \<and> \<not> isLoading state"
    then have "\<exists>state'. sendMessage uid clock env
           (NotOk 500 (WithErrorMember ''SocraticEngine did not invoke the required tool'')) state txt
              = Inr state'
         \<and> error_shown state' \<and> \<not> isLoading state' \<and> knowledgeGraph state' = knowledgeGraph state"
      using shown by blast
    then show "\<exists>state'. sendMessage uid clock env (POST message (Content blocks)) state txt = Inr state'
              \<and> error_shown state'
              \<and> \<not> isLoading state'
              \<and> knowledgeGraph state' = knowledgeGraph state"
      by (simp only: p)
  qed
qed

theorem failed_turn_keeps_graph_witness:
  "(case sendMessage ''id-0'' 5 \<lparr> update_clock = 7, fresh_id = ''id-1'', message_clock = 8 \<rparr>
        (POST (Some (ustr ''x squared'')) (Content [TextBlock (ustr ''The answer is 4.'')]))
        createInitialState (ustr ''x squared'') of
      Inr state' \<Rightarrow>
        error state' = Some ''SocraticEngine did not invoke the required tool''
        \<and> error_shown state'
        \<and> \<not> isLoading state'
        \<and> knowledgeGraph state' = createInitialKnowledgeGraph
    | Inl err \<Rightarrow> False)"
proof -
  let ?env = "\<lparr> update_clock = 7, fresh_id = ''id-1'', message_clock = 8 \<rparr>"
  let ?m = "''SocraticEngine did not invoke the required tool''"
  let ?blocks = "[TextBlock (ustr ''The answer is 4.'')]"
  have blank: "\<not> trim_is_empty (ustr ''x squared'')" "\<not> message_is_blank (Some (ustr ''x squared''))"
    by (simp_all add: trim_is_empty_def is_white_space_def ustr_def)
  have idle: "\<not> isLoading createInitialState"
    by (simp add: createInitialState_def)
  have none: "find is_tool_use ?blocks = None"
    by simp
  note t = failed_turn_keeps_graph [of "ustr ''x squared''" createInitialState "NotOk 500 (WithErrorMember ?m)"
        ?m "''id-0''" 5 ?env "Some (ustr ''x squared'')" ?blocks]
  from t blank none
  have post: "POST (Some (ustr ''x squared'')) (Content ?blocks) = NotOk 500 (WithErrorMember ?m)"
    by blast
  have "failure_message (NotOk 500 (WithErrorMember ?m)) = Some ?m"
    by simp
  with t blank idle
  obtain state' where run: "sendMessage ''id-0'' 5 ?env (NotOk 500 (WithErrorMember ?m)) createInitialState
        (ustr ''x squared'') = Inr state'"
    and facts: "error state' = Some ?m" "error_shown state' \<longleftrightarrow> ?m \<noteq> []" "\<not> isLoading state'"
      "knowledgeGraph state' = knowledgeGraph createInitialState"
    by blast
  have "knowledgeGraph createInitialState = createInitialKnowledgeGraph"
    by (simp add: createInitialState_def)
  with facts show ?thesis
    by (simp add: post run)
qed

section \<open>Properties of the path builder\<close>

lemma path_step_eq:
  "path_step fn xMin xMax yMin yMax w h n i
     (0 < i \<and> sample_drawn fn xMin xMax yMin yMax n (i - 1), points) =
     (sample_drawn fn xMin xMax yMin yMax n i,
      points @ sample_commands fn xMin xMax yMin yMax w h n i)"
  by (cases "fn (sample_x xMin xMax n i)")
    (auto simp: path_step_def sample_commands_def sample_drawn_def Let_def)

lemma path_loop:
  "fold (path_step fn xMin xMax yMin yMax w h n) [0..<k] (False, []) =
     (0 < k \<and> sample_drawn fn xMin xMax yMin yMax n (k - 1),
      concat (map (sample_commands fn xMin xMax yMin yMax w h n) [0..<k]))"
proof (induction k)
  case 0
  show ?case by simp
next
  case (Suc k)
  have "fold (path_step fn xMin xMax yMin yMax w h n) [0..<Suc k] (False, []) =
          path_step fn xMin xMax yMin yMax w h n k
            (fold (path_step fn xMin xMax yMin yMax w h n) [0..<k] (False, []))"
    by simp
  also have "\<dots> = path_step fn xMin xMax yMin yMax w h n k
            (0 < k \<and> sample_drawn fn xMin xMax yMin yMax n (k - 1),
             concat (map (sample_commands fn xMin xMax yMin yMax w h n) [0..<k]))"
    by (simp only: Suc.IH)
  also have "\<dots> = (sample_drawn fn xMin xMax yMin yMax n k,
      concat (map (sample_commands fn xMin xMax yMin yMax w h n) [0..<k])
        @ sample_commands fn xMin xMax yMin yMax w h n k)"
    by (rule path_step_eq)
  finally show ?case by simp
qed

lemma generatePath_commands:
  "generatePath fn xMin xMax yMin yMax w h n =
     concat (map (sample_commands fn xMin xMax yMin yMax w h n) [0..<Suc n])"
  unfolding generatePath_def path_loop by simp

lemma segment_count_concat:
  "segment_count (concat xss) = sum_list (map segment_count xss)"
  by (induction xss) (simp_all add: segment_count_def)

lemma segment_count_sample:
  "segment_count (sample_commands fn xMin xMax yMin yMax w h n i) =
     (if sample_drawn fn xMin xMax yMin yMax n i
         \<and> (i = 0 \<or> \<not> sample_drawn fn xMin xMax yMin yMax n (i - 1)) then 1 else 0)"
  by (auto simp: segment_count_def sample_commands_def sample_drawn_def split: option.splits)

lemma indicator_sum:
  fixes f :: "nat \<Rightarrow> nat"
  assumes f: "\<And>i. i \<le> n \<Longrightarrow> f i = (if i = 0 \<or> i = Suc k then 1 else 0)" and k: "k < n"
  shows "sum_list (map f [0..<Suc n]) = 2"
proof -
  have "sum_list (map f [0..<Suc n]) = sum f {0..<Suc n}"
    by (simp add: interv_sum_list_conv_sum_set_nat)
  also have "\<dots> = (\<Sum>i\<in>{0..<Suc n}. if i = 0 \<or> i = Suc k then 1 else 0)"
    by (rule sum.cong) (simp_all add: f)
  also have "\<dots> = card ({0..<Suc n} \<inter> {i. i = 0 \<or> i = Suc k})"
  proof -
    have "(\<Sum>i\<in>A. if i = 0 \<or> i = Suc k then 1 else 0) = card (A \<inter> {i. i = 0 \<or> i = Suc k})"
      if "finite A" for A :: "nat set"
      using that by (simp add: sum.If_cases)
    then show ?thesis by blast
  qed
  also have "{0..<Suc n} \<inter> {i. i = 0 \<or> i = Suc k} = {0, Suc k}"
    using k by auto
  finally show ?thesis by simp
qed

lemma two_segments:
  assumes "0 < k" "k < n" "\<not> sample_drawn fn xMin xMax yMin yMax n k"
    and "\<forall>i\<le>n. i \<noteq> k \<longrightarrow> sample_drawn fn xMin xMax yMin yMax n i"
  shows "segment_count (generatePath fn xMin xMax yMin yMax w h n) = 2"
proof -
  let ?f = "\<lambda>i. segment_count (sample_commands fn xMin xMax yMin yMax w h n i)"
  have f: "?f i = (if i = 0 \<or> i = Suc k then 1 else 0)" if "i \<le> n" for i
  proof (cases "i = k")
    case True
    with assms show ?thesis by (simp add: segment_count_sample)
  next
    case False
    with assms that have d: "sample_drawn fn xMin xMax yMin yMax n i" by blast
    show ?thesis
    proof (cases "i = 0 \<or> i = Suc k")
      case True
      with assms d show ?thesis by (auto simp: segment_count_sample)
    next
      case False
      with \<open>i \<noteq> k\<close> that have "i - 1 \<le> n" "i - 1 \<noteq> k" by auto
      with assms have "sample_drawn fn xMin xMax yMin yMax n (i - 1)" by blast
      with False d show ?thesis by (simp add: segment_count_sample)
    qed
  qed
  have "segment_count (generatePath fn xMin xMax yMin yMax w h n) = sum_list (map ?f [0..<Suc n])"
    unfolding generatePath_commands segment_count_concat by (simp add: comp_def)
  also have "\<dots> = 2"
    using f \<open>k < n\<close> by (rule indicator_sum)
  finally show ?thesis .
qed

lemma first_segment:
  assumes "i < k" and "sample_drawn fn xMin xMax yMin yMax n i"
  shows "1 \<le> segment_count (concat (map (sample_commands fn xMin xMax yMin yMax w h n) [0..<k]))"
proof -
  define j where "j = (LEAST j. sample_drawn fn xMin xMax yMin yMax n j)"
  have j: "sample_drawn fn xMin xMax yMin yMax n j"
    unfolding j_def using assms(2) by (rule LeastI)
  have le: "j \<le> i"
    unfolding j_def using assms(2) by (rule Least_le)
  have "\<not> sample_drawn fn xMin xMax yMin yMax n (j - 1)" if "j \<noteq> 0"
  proof
    assume "sample_drawn fn xMin xMax yMin yMax n (j - 1)"
    then have "j \<le> j - 1" unfolding j_def by (rule Least_le)
    with that show False by simp
  qed
  with j have one: "segment_count (sample_commands fn xMin xMax yMin yMax w h n j) = 1"
    by (auto simp: segment_count_sample)
  from le assms(1) have "j \<in> set [0..<k]" by simp
  then have "segment_count (sample_commands fn xMin xMax yMin yMax w h n j)
      \<in> set (map (\<lambda>i. segment_count (sample_commands fn xMin xMax yMin yMax w h n i)) [0..<k])"
    by simp
  then have "segment_count (sample_commands fn xMin xMax yMin yMax w h n j)
      \<le> sum_list (map (\<lambda>i. segment_count (sample_commands fn xMin xMax yMin yMax w h n i)) [0..<k])"
    by (rule member_le_sum_list) simp
  with one show ?thesis
    by (simp add: segment_count_concat comp_def)
qed

lemma gap_starts_segment:
  assumes "0 < k" "k < n"
    and "sample_drawn fn xMin xMax yMin yMax n (k - 1)"
    and "\<not> sample_drawn fn xMin xMax yMin yMax n k"
    and "sample_drawn fn xMin xMax yMin yMax n (k + 1)"
  shows "2 \<le> segment_count (generatePath fn xMin xMax yMin yMax w h n)"
proof -
  let ?f = "sample_commands fn xMin xMax yMin yMax w h n"
  have split: "[0..<Suc n] = [0..<k] @ [k] @ [Suc k] @ [Suc (Suc k)..<Suc n]"
  proof -
    from assms(2) have "Suc n = k + (Suc n - k)" by simp
    then have "[0..<Suc n] = [0..<k] @ [k..<Suc n]"
      using upt_add_eq_append [of 0 k "Suc n - k"] by simp
    also from assms(2) have "[k..<Suc n] = k # [Suc k..<Suc n]"
      by (simp add: upt_conv_Cons)
    also from assms(2) have "[Suc k..<Suc n] = Suc k # [Suc (Suc k)..<Suc n]"
      by (simp add: upt_conv_Cons)
    finally show ?thesis by simp
  qed
  have a: "1 \<le> segment_count (concat (map ?f [0..<k]))"
    using assms(1,3) by (intro first_segment [of "k - 1"]) simp_all
  have b: "segment_count (?f (Suc k)) = 1"
    using assms(4,5) by (simp add: segment_count_sample)
  have "segment_count (generatePath fn xMin xMax yMin yMax w h n)
      = segment_count (concat (map ?f [0..<k])) + segment_count (?f k) + segment_count (?f (Suc k))
        + segment_count (concat (map ?f [Suc (Suc k)..<Suc n]))"
    unfolding generatePath_commands split by (simp add: segment_count_def)
  with a b show ?thesis by simp
qed

lemma sample_x_equal_steps:
  "0 < n \<Longrightarrow> sample_x xMin xMax n i = Some (xMin + real i / real n * (xMax - xMin))"
  by (simp add: sample_x_def num_add_def num_mul_def num_div_def)

lemma canvas_affine:
  "xMin \<noteq> xMax \<Longrightarrow> canvas_x xMin xMax w (Some x) = Some ((x - xMin) / (xMax - xMin) * w)"
  "yMin \<noteq> yMax \<Longrightarrow> canvas_y yMin yMax h y = Some (h - (y - yMin) / (yMax - yMin) * h)"
  by (simp_all add: canvas_x_def canvas_y_def num_add_def num_mul_def num_div_def num_rsub_def)

text \<open>
  Claim C9. The path is the concatenation, over the samples \<open>0, \<dots>, steps\<close>, of what each
  sample emits: nothing when its value is not finite or more than one unit outside
  \<open>[yMin, yMax]\<close>, and otherwise one command, a move-to when the pen was up (first sample,
  or sample before not drawn) and a line-to when it was down. The samples are
  \<open>xMin + (i / steps) * (xMax - xMin)\<close>; the canvas coordinates are affine in the data
  coordinates, \<open>xMin\<close> and \<open>xMax\<close> going to \<open>0\<close> and \<open>width\<close>, and \<open>yMin\<close> and \<open>yMax\<close> to
  \<open>height\<close> and \<open>0\<close>. An inner sample that is not drawn, between two samples that are,
  breaks the path: it has at least two segments, and exactly two when all other samples
  are drawn.
\<close>

theorem generatePath_pen_up:
  "generatePath fn xMin xMax yMin yMax w h n
     = concat (map (sample_commands fn xMin xMax yMin yMax w h n) [0..<Suc n])
   \<and> (0 < n \<longrightarrow>
        (\<forall>i. sample_x xMin xMax n i = Some (xMin + real i / real n * (xMax - xMin))))
   \<and> (xMin \<noteq> xMax \<longrightarrow>
        (\<forall>x. canvas_x xMin xMax w (Some x) = Some ((x - xMin) / (xMax - xMin) * w))
        \<and> canvas_x xMin xMax w (Some xMin) = Some 0
        \<and> canvas_x xMin xMax w (Some xMax) = Some w)
   \<and> (yMin \<noteq> yMax \<longrightarrow>
        (\<forall>y. canvas_y yMin yMax h y = Some (h - (y - yMin) / (yMax - yMin) * h))
        \<and> canvas_y yMin yMax h yMin = Some h
        \<and> canvas_y yMin yMax h yMax = Some 0)
   \<and> (0 < k \<and> k < n \<and> sample_drawn fn xMin xMax yMin yMax n (k - 1)
        \<and> \<not> sample_drawn fn xMin xMax yMin yMax n k
        \<and> sample_drawn fn xMin xMax yMin yMax n (k + 1) \<longrightarrow>
        2 \<le> segment_count (generatePath fn xMin xMax yMin yMax w h n))
   \<and> (0 < k \<and> k < n \<and> \<not> sample_drawn fn xMin xMax yMin yMax n k
        \<and> (\<forall>i\<le>n. i \<noteq> k \<longrightarrow> sample_drawn fn xMin xMax yMin yMax n i) \<longrightarrow>
        segment_count (generatePath fn xMin xMax yMin yMax w h n) = 2)"
proof -
  have "canvas_x xMin xMax w (Some xMin) = Some 0 \<and> canvas_x xMin xMax w (Some xMax) = Some w"
    if "xMin \<noteq> xMax"
    using that by (simp add: canvas_affine)
  moreover have "canvas_y yMin yMax h yMin = Some h \<and> canvas_y yMin yMax h yMax = Some 0"
    if "yMin \<noteq> yMax"
    using that by (simp add: canvas_affine)
  ultimately show ?thesis
    using generatePath_commands [of fn xMin xMax yMin yMax w h n]
      two_segments [of k n fn xMin xMax yMin yMax w h]
      gap_starts_segment [of k n fn xMin xMax yMin yMax w h]
    by (simp add: sample_x_equal_steps canvas_affine)
qed

theorem generatePath_pen_up_witness:
  "generatePath (\<lambda>x. case x of None \<Rightarrow> None
                     | Some v \<Rightarrow> if v = 2 then None else Some ((v * v - 4) / (v - 2)))
     0 4 0 8 480 320 4
     = [MoveTo (Some 0) (Some 240), LineTo (Some 120) (Some 200),
        MoveTo (Some 360) (Some 120), LineTo (Some 480) (Some 80)]
   \<and> segment_count
       (generatePath (\<lambda>x. case x of None \<Rightarrow> None
                     | Some v \<Rightarrow> if v = 2 then None else Some ((v * v - 4) / (v - 2)))
          0 4 0 8 480 320 4) = 2"
proof -
  let ?f = "\<lambda>x. case x of None \<Rightarrow> None
                     | Some v \<Rightarrow> if v = (2::real) then None else Some ((v * v - 4) / (v - 2))"
  have x: "sample_x 0 4 4 i = Some (real i)" for i
    by (simp add: sample_x_def num_add_def num_mul_def num_div_def)
  have gap: "\<not> sample_drawn ?f 0 4 0 8 4 2"
    by (simp add: sample_drawn_def x)
  have rest: "\<forall>i\<le>4. i \<noteq> 2 \<longrightarrow> sample_drawn ?f 0 4 0 8 4 i"
  proof (intro allI impI)
    fix i :: nat
    assume "i \<le> 4" and "i \<noteq> 2"
    then consider "i = 0" | "i = 1" | "i = 3" | "i = 4" by linarith
    then show "sample_drawn ?f 0 4 0 8 4 i"
      by cases (simp_all add: sample_drawn_def x)
  qed
  have cmds: "concat (map (sample_commands ?f 0 4 0 8 480 320 4) [0..<Suc 4])
     = [MoveTo (Some 0) (Some 240), LineTo (Some 120) (Some 200),
        MoveTo (Some 360) (Some 120), LineTo (Some 480) (Some 80)]"
  proof -
    have "[0..<Suc 4] = [0, 1, 2, 3, 4]"
      by code_simp
    then show ?thesis
      by (simp add: sample_commands_def sample_drawn_def x canvas_x_def canvas_y_def
          num_add_def num_mul_def num_div_def num_rsub_def)
  qed
  have k: "(0::nat) < 2" "(2::nat) < 4"
    by simp_all
  note path = generatePath_pen_up [of ?f 0 4 0 8 480 320 4 2]
  from path have "generatePath ?f 0 4 0 8 480 320 4
      = concat (map (sample_commands ?f 0 4 0 8 480 320 4) [0..<Suc 4])"
    by (rule conjunct1)
  moreover from path gap rest k have "segment_count (generatePath ?f 0 4 0 8 480 320 4) = 2"
    by blast
  ultimately show ?thesis
    by (simp only: cmds)
qed

section \<open>Properties of the expression sandbox\<close>

lemma createEvaluator_accepts_iff:
  "createEvaluator newFunction expr \<noteq> None \<longleftrightarrow>
     expr \<noteq> [] \<and> safe_test (replace_Math expr)
     \<and> (\<exists>fn t. newFunction (function_body expr) = Some fn \<and> fn (Some 1) = Returns (JsNumber t))"
  by (auto simp: createEvaluator_def split: option.splits JsOutcome.splits JsValue.splits)

lemma createEvaluator_safe_chars:
  "createEvaluator newFunction expr = Some ev \<Longrightarrow> list_all safe_char (replace_Math expr)"
  using createEvaluator_accepts_iff [of newFunction expr] by (simp add: safe_test_def)

lemma createEvaluator_never_throws:
  assumes "createEvaluator newFunction expr = Some ev"
  shows "ev x = NaN \<or> isFinite (ev x)"
  using assms
  by (auto simp: createEvaluator_def split: option.splits JsOutcome.splits JsValue.splits if_splits)

lemma pow_example_passes:
  "spec_allow_listed (ustr ''Math.pow(x,2)'') \<and> safe_test (replace_Math (ustr ''Math.pow(x,2)''))"
  by (simp add: spec_allow_listed_def allowed_token_def library_names_def is_word_char_def
      safe_test_def safe_char_def is_digit_def is_white_space_def ustr_def)

text \<open>The white space of the class: a no-break space passes the test, and a text of
  no-break spaces is blank.\<close>

lemma no_break_space_is_white_space:
  "safe_char 0xA0 \<and> trim_is_empty [0xA0, 0x2028, 0xFEFF] \<and> \<not> trim_is_empty (ustr ''x'')"
  by (simp add: safe_char_def trim_is_empty_def is_white_space_def ustr_def)

text \<open>
  Claim C1 says that an accepted expression has no token outside the allow-list, so that
  it can reach nothing outside the numeric library. The test of \<^verbatim>\<open>createEvaluator\<close> is a
  test on characters: the names written between the brackets of the regular expression
  are read letter by letter, and any word after \<^verbatim>\<open>Math.\<close> is replaced before the test.
  The expressions \<^verbatim>\<open>fetch(x)*0\<close> and \<^verbatim>\<open>Math.constructor(x)+x\<close> are made of allowed
  characters only, and name a global function and the \<^verbatim>\<open>Object\<close> constructor. They pass
  the test, and they are accepted exactly when their probe returns a number, which in
  JavaScript it does (\<^verbatim>\<open>NaN\<close> for the first, \<open>2\<close> for the second).
\<close>

theorem sandbox_accepts_outside_names:
  "\<not> spec_allow_listed (ustr ''fetch(x)*0'')
   \<and> safe_test (replace_Math (ustr ''fetch(x)*0''))
   \<and> (createEvaluator newFunction (ustr ''fetch(x)*0'') \<noteq> None \<longleftrightarrow>
        (\<exists>fn t. newFunction (function_body (ustr ''fetch(x)*0'')) = Some fn
           \<and> fn (Some 1) = Returns (JsNumber t)))
   \<and> \<not> spec_allow_listed (ustr ''Math.constructor(x)+x'')
   \<and> safe_test (replace_Math (ustr ''Math.constructor(x)+x''))
   \<and> (createEvaluator newFunction (ustr ''Math.constructor(x)+x'') \<noteq> None \<longleftrightarrow>
        (\<exists>fn t. newFunction (function_body (ustr ''Math.constructor(x)+x'')) = Some fn
           \<and> fn (Some 1) = Returns (JsNumber t)))"
proof -
  have a: "\<not> spec_allow_listed (ustr ''fetch(x)*0'')"
    "\<not> spec_allow_listed (ustr ''Math.constructor(x)+x'')"
    by (simp_all add: spec_allow_listed_def allowed_token_def is_word_char_def library_names_def
        is_digit_def is_white_space_def ustr_def)
  have b: "safe_test (replace_Math (ustr ''fetch(x)*0''))"
    "safe_test (replace_Math (ustr ''Math.constructor(x)+x''))"
    by (simp_all add: is_word_char_def safe_test_def safe_char_def is_digit_def is_white_space_def
        ustr_def)
  have c: "ustr ''fetch(x)*0'' \<noteq> []" "ustr ''Math.constructor(x)+x'' \<noteq> []"
    by (simp_all add: ustr_def)
  from a b c createEvaluator_accepts_iff [of newFunction "ustr ''fetch(x)*0''"]
    createEvaluator_accepts_iff [of newFunction "ustr ''Math.constructor(x)+x''"]
  show ?thesis
    by blast
qed

theorem sandbox_accepts_outside_names_witness:
  "createEvaluator (\<lambda>body. Some (\<lambda>x. Returns (JsNumber None))) (ustr ''fetch(x)*0'') \<noteq> None
   \<and> \<not> spec_allow_listed (ustr ''fetch(x)*0'')"
  using sandbox_accepts_outside_names [of "\<lambda>body. Some (\<lambda>x. Returns (JsNumber None))"]
  by simp

end
